theory Spec2Isabelle
  imports Complex_Main
begin

section \<open>Compliance audit (compliance\_audit.py)\<close>

text \<open>
  Python integers are \<open>int\<close>, Python strings are \<open>string\<close>. Instants of time
  (\<open>datetime\<close> values) are integers counting microseconds since the epoch, the
  resolution of \<open>timedelta\<close>.
\<close>

subsection \<open>Python floats\<close>

text \<open>
  A Python float is an IEEE 754 binary64 number. Here a finite float is a pair
  \<open>(m, e)\<close> of integers that stands for \<open>m * 2 ^ e\<close>, and an operation on floats
  is the exact operation followed by rounding to 53 significant bits, to the nearest value
  and to the even one of two nearest. The exponent range of the format is not modelled:
  the floats computed below are 0 or lie between 1 over the length of a list and 100.
\<close>

text \<open>The number of binary digits of a natural number.\<close>

fun bit_length :: "nat \<Rightarrow> nat" where
  "bit_length n = (if n = 0 then 0 else Suc (bit_length (n div 2)))"

declare bit_length.simps [simp del]

text \<open>For positive \<open>a\<close> and \<open>b\<close>: the \<open>e\<close> with \<open>2 ^ e \<le> a / b < 2 ^ (e + 1)\<close>.\<close>

definition binade :: "int \<Rightarrow> int \<Rightarrow> int" where
  "binade a b =
     (let k = int (bit_length (nat a)) - int (bit_length (nat b))
      in if (if 0 \<le> k then b * 2 ^ nat k \<le> a else b \<le> a * 2 ^ nat (- k)) then k else k - 1)"

text \<open>For \<open>n \<ge> 0\<close> and \<open>d > 0\<close>: the integer nearest to \<open>n / d\<close>, the even one of two.\<close>

definition round_half_even :: "int \<Rightarrow> int \<Rightarrow> int" where
  "round_half_even n d =
     (let q = n div d; r = n mod d
      in if 2 * r < d then q else if d < 2 * r then q + 1 else if even q then q else q + 1)"

text \<open>For \<open>d > 0\<close>: the float nearest to \<open>(n / d) * 2 ^ x\<close>.\<close>

definition round_scaled :: "int \<Rightarrow> int \<Rightarrow> int \<Rightarrow> int \<times> int" where
  "round_scaled n d x =
     (if n = 0 then (0, 0)
      else
        (let s = 52 - binade \<bar>n\<bar> d;
             m = (if 0 \<le> s then round_half_even (\<bar>n\<bar> * 2 ^ nat s) d
                  else round_half_even \<bar>n\<bar> (d * 2 ^ nat (- s)))
         in (sgn n * m, x - s)))"

text \<open>
  \<open>a / b\<close> on integers (the quotient, correctly rounded), for \<open>b \<noteq> 0\<close>: both
  divisions below divide by \<open>max(\<dots>, 1)\<close>. Then \<open>float(i)\<close>, and \<open>x * y\<close> on
  floats.
\<close>

definition int_truediv :: "int \<Rightarrow> int \<Rightarrow> int \<times> int" where
  "int_truediv a b = round_scaled (a * sgn b) \<bar>b\<bar> 0"

definition float_of_int :: "int \<Rightarrow> int \<times> int" where
  "float_of_int i = round_scaled i 1 0"

definition float_mul :: "int \<times> int \<Rightarrow> int \<times> int \<Rightarrow> int \<times> int" where
  "float_mul x y = round_scaled (fst x * fst y) 1 (snd x + snd y)"

text \<open>The rational number a float stands for; the records below hold floats as these.\<close>

definition float_value :: "int \<times> int \<Rightarrow> rat" where
  "float_value x =
     (if 0 \<le> snd x then rat_of_int (fst x * 2 ^ nat (snd x))
      else rat_of_int (fst x) / rat_of_int (2 ^ nat (- snd x)))"

subsection \<open>Configuration\<close>

definition MAX_ACCESS_KEY_AGE_DAYS :: int where
  "MAX_ACCESS_KEY_AGE_DAYS = 90"

definition MAX_UNUSED_DAYS :: int where
  "MAX_UNUSED_DAYS = 45"

subsection \<open>Enums and data classes\<close>

datatype Severity = CRITICAL | HIGH | MEDIUM | LOW | INFO

datatype ComplianceStatus = COMPLIANT | NON_COMPLIANT | NOT_APPLICABLE

text \<open>The values a \<open>details\<close> dictionary holds in this module.\<close>

datatype detail = DInt int | DBool bool | DStr string | DStrs "string list"

record Finding =
  rule_id :: string
  rule_name :: string
  resource_type :: string
  resource_id :: string
  severity :: Severity
  status :: ComplianceStatus
  description :: string
  recommendation :: string
  details :: "(string \<times> detail) list"

record AuditReport =
  scan_timestamp :: int
  total_users :: int
  total_findings :: int
  critical_count :: int
  high_count :: int
  medium_count :: int
  low_count :: int
  compliance_score :: rat
  findings :: "Finding list"

text \<open>
  The identity record the checks read (a dictionary in the source). A key that the
  source reads with \<open>user.get(k, [])\<close> is a list here, empty when the key is absent;
  \<open>PasswordLastUsed\<close> is \<open>None\<close> when absent.
\<close>

record AccessKey =
  AccessKeyId :: string
  Status :: string
  KeyCreateDate :: int

record AttachedPolicy =
  PolicyName :: string
  PolicyArn :: string

record IdentityRecord =
  UserName :: string
  UserId :: string
  CreateDate :: int
  PasswordLastUsed :: "int option"
  MFADevices :: "string list"
  AccessKeys :: "AccessKey list"
  AttachedPolicies :: "AttachedPolicy list"
  Groups :: "string list"

text \<open>
  The auditor object, together with the number of times the wall clock has been read so
  far. The clock itself is a parameter \<open>clk\<close> of the operations: \<open>clk k\<close> is what the
  \<open>k\<close>-th call of \<open>datetime.now\<close> returns.
\<close>

record IAMComplianceAuditor =
  aud_demo_mode :: bool
  aud_findings :: "Finding list"
  clock_reads :: nat

subsection \<open>Formatting and time\<close>

definition digit_char :: "nat \<Rightarrow> char" where
  "digit_char d = ''0123456789'' ! d"

fun str_nat :: "nat \<Rightarrow> string" where
  "str_nat n = (if n < 10 then [digit_char n] else str_nat (n div 10) @ [digit_char (n mod 10)])"

declare str_nat.simps [simp del]

definition str_int :: "int \<Rightarrow> string" where
  "str_int i = (if i < 0 then CHR ''-'' # str_nat (nat (- i)) else str_nat (nat i))"

definition datetime_now :: "(nat \<Rightarrow> int) \<Rightarrow> IAMComplianceAuditor \<Rightarrow> int \<times> IAMComplianceAuditor" where
  "datetime_now clk a = (clk (clock_reads a), a\<lparr>clock_reads := Suc (clock_reads a)\<rparr>)"

text \<open>\<open>timedelta.days\<close>: the whole days of a difference of instants, rounded down.\<close>

definition timedelta_days :: "int \<Rightarrow> int" where
  "timedelta_days delta = delta div 86400000000"

definition append_finding :: "Finding \<Rightarrow> IAMComplianceAuditor \<Rightarrow> IAMComplianceAuditor" where
  "append_finding f a = a\<lparr>aud_findings := aud_findings a @ [f]\<rparr>"

subsection \<open>Compliance checks\<close>

definition check_mfa_enabled :: "IdentityRecord \<Rightarrow> IAMComplianceAuditor \<Rightarrow> IAMComplianceAuditor" where
  "check_mfa_enabled user a =
     (let username = UserName user;
          has_mfa = (length (MFADevices user) > 0);
          has_console = (PasswordLastUsed user \<noteq> None)
      in if has_console \<and> \<not> has_mfa then
           append_finding \<lparr>
             rule_id = ''CIS-1.2'',
             rule_name = ''MFA for Console Users'',
             resource_type = ''IAM User'',
             resource_id = username,
             severity = HIGH,
             status = NON_COMPLIANT,
             description = ''User '' @ username @ '' has console access but MFA is not enabled'',
             recommendation = ''Enable MFA for this user immediately'',
             details = [(''has_console_access'', DBool True), (''mfa_enabled'', DBool False)]\<rparr> a
         else a)"

definition access_key_finding :: "string \<Rightarrow> AccessKey \<Rightarrow> int \<Rightarrow> Finding" where
  "access_key_finding username key age_days = \<lparr>
     rule_id = ''CIS-1.4'',
     rule_name = ''Access Key Rotation'',
     resource_type = ''IAM Access Key'',
     resource_id = username @ ''/'' @ AccessKeyId key,
     severity = MEDIUM,
     status = NON_COMPLIANT,
     description = ''Access key is '' @ str_int age_days @ '' days old (max: ''
        @ str_int MAX_ACCESS_KEY_AGE_DAYS @ '')'',
     recommendation = ''Rotate access key immediately'',
     details = [(''key_age_days'', DInt age_days), (''threshold'', DInt MAX_ACCESS_KEY_AGE_DAYS)]\<rparr>"

text \<open>The loop of \<open>_check_access_key_age\<close> over the access keys, in order.\<close>

fun access_key_loop :: "(nat \<Rightarrow> int) \<Rightarrow> string \<Rightarrow> AccessKey list \<Rightarrow> IAMComplianceAuditor \<Rightarrow> IAMComplianceAuditor" where
  "access_key_loop clk username [] a = a"
| "access_key_loop clk username (key # keys) a =
     (if Status key \<noteq> ''Active'' then access_key_loop clk username keys a
      else
        (case datetime_now clk a of (now, a1) \<Rightarrow>
           (let age_days = timedelta_days (now - KeyCreateDate key)
            in if age_days > MAX_ACCESS_KEY_AGE_DAYS
               then access_key_loop clk username keys
                      (append_finding (access_key_finding username key age_days) a1)
               else access_key_loop clk username keys a1)))"

definition check_access_key_age :: "(nat \<Rightarrow> int) \<Rightarrow> IdentityRecord \<Rightarrow> IAMComplianceAuditor \<Rightarrow> IAMComplianceAuditor" where
  "check_access_key_age clk user a = access_key_loop clk (UserName user) (AccessKeys user) a"

definition check_unused_credentials :: "(nat \<Rightarrow> int) \<Rightarrow> IdentityRecord \<Rightarrow> IAMComplianceAuditor \<Rightarrow> IAMComplianceAuditor" where
  "check_unused_credentials clk user a =
     (let username = UserName user in
      case PasswordLastUsed user of
        None \<Rightarrow> a
      | Some last_used \<Rightarrow>
          (case datetime_now clk a of (now, a1) \<Rightarrow>
             (let days_unused = timedelta_days (now - last_used)
              in if days_unused > MAX_UNUSED_DAYS then
                   append_finding \<lparr>
                     rule_id = ''CIS-1.3'',
                     rule_name = ''Unused Credentials'',
                     resource_type = ''IAM User Password'',
                     resource_id = username,
                     severity = MEDIUM,
                     status = NON_COMPLIANT,
                     description = ''Password unused for '' @ str_int days_unused @ '' days'',
                     recommendation = ''Disable or remove unused credentials'',
                     details = [(''days_unused'', DInt days_unused), (''threshold'', DInt MAX_UNUSED_DAYS)]\<rparr> a1
                 else a1)))"

definition check_multiple_access_keys :: "IdentityRecord \<Rightarrow> IAMComplianceAuditor \<Rightarrow> IAMComplianceAuditor" where
  "check_multiple_access_keys user a =
     (let username = UserName user;
          active_keys = filter (\<lambda>k. Status k = ''Active'') (AccessKeys user)
      in if length active_keys > 1 then
           append_finding \<lparr>
             rule_id = ''BP-1'',
             rule_name = ''Multiple Access Keys'',
             resource_type = ''IAM User'',
             resource_id = username,
             severity = LOW,
             status = NON_COMPLIANT,
             description = ''User has '' @ str_int (int (length active_keys)) @ '' active access keys'',
             recommendation = ''Remove unused access keys'',
             details = [(''active_key_count'', DInt (int (length active_keys)))]\<rparr> a
         else a)"

definition check_direct_policy_attachment :: "IdentityRecord \<Rightarrow> IAMComplianceAuditor \<Rightarrow> IAMComplianceAuditor" where
  "check_direct_policy_attachment user a =
     (let username = UserName user;
          direct_policies = AttachedPolicies user
      in if direct_policies \<noteq> [] then
           append_finding \<lparr>
             rule_id = ''BP-2'',
             rule_name = ''Direct Policy Attachment'',
             resource_type = ''IAM User'',
             resource_id = username,
             severity = LOW,
             status = NON_COMPLIANT,
             description = ''User has '' @ str_int (int (length direct_policies))
                @ '' directly attached policies'',
             recommendation = ''Use IAM groups for policy management'',
             details = [(''policies'', DStrs (map PolicyName direct_policies))]\<rparr> a
         else a)"

definition admin_policies :: "string list" where
  "admin_policies = [''AdministratorAccess'', ''PowerUserAccess'']"

fun admin_privileges_loop :: "string \<Rightarrow> AttachedPolicy list \<Rightarrow> IAMComplianceAuditor \<Rightarrow> IAMComplianceAuditor" where
  "admin_privileges_loop username [] a = a"
| "admin_privileges_loop username (policy # policies) a =
     (if PolicyName policy \<in> set admin_policies then
        admin_privileges_loop username policies
          (append_finding \<lparr>
             rule_id = ''CIS-1.16'',
             rule_name = ''Admin Privilege Check'',
             resource_type = ''IAM User'',
             resource_id = username,
             severity = CRITICAL,
             status = NON_COMPLIANT,
             description = ''User has '' @ PolicyName policy @ '' attached directly'',
             recommendation = ''Use least-privilege policies instead'',
             details = [(''policy'', DStr (PolicyName policy))]\<rparr> a)
      else admin_privileges_loop username policies a)"

definition check_admin_privileges :: "IdentityRecord \<Rightarrow> IAMComplianceAuditor \<Rightarrow> IAMComplianceAuditor" where
  "check_admin_privileges user a = admin_privileges_loop (UserName user) (AttachedPolicies user) a"

definition check_password_policy :: "IAMComplianceAuditor \<Rightarrow> IAMComplianceAuditor" where
  "check_password_policy a =
     (if aud_demo_mode a then
        append_finding \<lparr>
          rule_id = ''CIS-1.9'',
          rule_name = ''Password Reuse Prevention'',
          resource_type = ''Account Password Policy'',
          resource_id = ''PasswordPolicy'',
          severity = MEDIUM,
          status = NON_COMPLIANT,
          description = ''Password policy does not prevent reuse of last 24 passwords'',
          recommendation = ''Set PasswordReusePrevention to 24'',
          details = [(''current_value'', DInt 12), (''required_value'', DInt 24)]\<rparr> a
      else a)"

definition check_root_account :: "IAMComplianceAuditor \<Rightarrow> IAMComplianceAuditor" where
  "check_root_account a =
     (if aud_demo_mode a then
        append_finding \<lparr>
          rule_id = ''CIS-1.1'',
          rule_name = ''Root Account Usage'',
          resource_type = ''Root Account'',
          resource_id = ''root'',
          severity = INFO,
          status = COMPLIANT,
          description = ''Root account has not been used in the last 90 days'',
          recommendation = ''Continue avoiding root account usage'',
          details = [(''last_used'', DStr ''Never or >90 days'')]\<rparr> a
      else a)"

subsection \<open>Reporting\<close>

definition generate_report :: "(nat \<Rightarrow> int) \<Rightarrow> int \<Rightarrow> IAMComplianceAuditor \<Rightarrow> AuditReport \<times> IAMComplianceAuditor" where
  "generate_report clk n_users a =
     (let critical = int (length (filter (\<lambda>f. severity f = CRITICAL) (aud_findings a)));
          high = int (length (filter (\<lambda>f. severity f = HIGH) (aud_findings a)));
          medium = int (length (filter (\<lambda>f. severity f = MEDIUM) (aud_findings a)));
          low = int (length (filter (\<lambda>f. severity f = LOW) (aud_findings a)));
          non_compliant = int (length (filter (\<lambda>f. status f = NON_COMPLIANT) (aud_findings a)));
          total_checks = int (length (aud_findings a));
          score = float_mul (int_truediv (total_checks - non_compliant) (max total_checks 1))
                    (float_of_int 100)
      in case datetime_now clk a of (now, a1) \<Rightarrow>
           (\<lparr>scan_timestamp = now,
             total_users = n_users,
             total_findings = int (length (aud_findings a)),
             critical_count = critical,
             high_count = high,
             medium_count = medium,
             low_count = low,
             compliance_score = float_value score,
             findings = aud_findings a\<rparr>, a1))"

subsection \<open>The full audit\<close>

text \<open>
  \<open>_get_users\<close>: the fixture \<open>DEMO_USERS\<close> in demo mode, otherwise the enriched
  identities the identity source lists (\<open>iam_users\<close>). Both are parameters: the fixture
  is built when the module is loaded, from the clock at that moment.
\<close>

definition get_users :: "IdentityRecord list \<Rightarrow> IdentityRecord list \<Rightarrow> IAMComplianceAuditor \<Rightarrow> IdentityRecord list" where
  "get_users DEMO_USERS iam_users a = (if aud_demo_mode a then DEMO_USERS else iam_users)"

definition check_user :: "(nat \<Rightarrow> int) \<Rightarrow> IdentityRecord \<Rightarrow> IAMComplianceAuditor \<Rightarrow> IAMComplianceAuditor" where
  "check_user clk user a =
     check_admin_privileges user
       (check_direct_policy_attachment user
         (check_multiple_access_keys user
           (check_unused_credentials clk user
             (check_access_key_age clk user
               (check_mfa_enabled user a)))))"

fun check_users :: "(nat \<Rightarrow> int) \<Rightarrow> IdentityRecord list \<Rightarrow> IAMComplianceAuditor \<Rightarrow> IAMComplianceAuditor" where
  "check_users clk [] a = a"
| "check_users clk (user # users) a = check_users clk users (check_user clk user a)"

definition run_full_audit :: "(nat \<Rightarrow> int) \<Rightarrow> IdentityRecord list \<Rightarrow> IdentityRecord list \<Rightarrow> IAMComplianceAuditor \<Rightarrow> AuditReport \<times> IAMComplianceAuditor" where
  "run_full_audit clk DEMO_USERS iam_users a =
     (let a0 = a\<lparr>aud_findings := []\<rparr>;
          users = get_users DEMO_USERS iam_users a0;
          a1 = check_users clk users a0;
          a2 = check_password_policy a1;
          a3 = check_root_account a2
      in generate_report clk (int (length users)) a3)"

section \<open>Provisioning (iam\_provisioner.py)\<close>

subsection \<open>Configuration\<close>

definition DEFAULT_GROUP :: string where
  "DEFAULT_GROUP = ''StandardUsers''"

definition PASSWORD_LENGTH :: nat where
  "PASSWORD_LENGTH = 16"

definition DEPARTMENT_GROUPS :: "(string \<times> string list) list" where
  "DEPARTMENT_GROUPS =
     [(''IT'', [''IT-Users'', ''VPN-Access'', ''CloudWatch-ReadOnly'']),
      (''Finance'', [''Finance-Users'', ''Billing-ReadOnly'']),
      (''HR'', [''HR-Users'', ''Employee-Records-Access'']),
      (''Engineering'', [''Engineering-Users'', ''Developer-Tools'', ''S3-Dev-Access'']),
      (''Marketing'', [''Marketing-Users'', ''Analytics-ReadOnly'']),
      (''Sales'', [''Sales-Users'', ''CRM-Access''])]"

definition ROLE_POLICIES :: "(string \<times> string list) list" where
  "ROLE_POLICIES =
     [(''Developer'', [''arn:aws:iam::aws:policy/PowerUserAccess'']),
      (''Analyst'', [''arn:aws:iam::aws:policy/ReadOnlyAccess'']),
      (''Admin'', [''arn:aws:iam::aws:policy/AdministratorAccess'']),
      (''Manager'', [''arn:aws:iam::aws:policy/ReadOnlyAccess''])]"

subsection \<open>Data classes\<close>

record UserRequest =
  username :: string
  email :: string
  department :: string
  role :: string
  first_name :: string
  last_name :: string
  manager :: "string option"

definition validate :: "UserRequest \<Rightarrow> bool" where
  "validate r =
     (if \<not> (username r \<noteq> [] \<and> email r \<noteq> [] \<and> department r \<noteq> [] \<and> role r \<noteq> []) then False
      else if CHR ''@'' \<notin> set (email r) then False
      else if length (username r) < 3 \<or> length (username r) > 64 then False
      else True)"

text \<open>
  The result of one request. Its \<open>timestamp\<close> field (the wall clock at construction,
  as text) is left out: nothing below reads it.
\<close>

record ProvisioningResult =
  res_username :: string
  success :: bool
  message :: string
  groups_assigned :: "string list"
  policies_attached :: "string list"
  credentials_location :: "string option"

subsection \<open>Exceptions\<close>

text \<open>
  The exceptions the collaborators raise, and \<open>KeyError\<close>, which reading a response
  raises. A \<open>ClientError\<close> carries what its response holds under the key
  \<open>Error\<close>, if anything: the values under \<open>Code\<close> and \<open>Message\<close>, each of
  which may be absent; and its text \<open>str(e)\<close>. A \<open>KeyError\<close> carries the missing
  key, the others carry their text. \<open>ParamValidationError\<close> is a subclass of
  \<open>BotoCoreError\<close>.
\<close>

datatype exn =
    ClientError "(string option \<times> string option) option" string
  | BotoCoreError string
  | ParamValidationError string
  | KeyError string
  | OtherException string

fun str_exn :: "exn \<Rightarrow> string" where
  "str_exn (ClientError response txt) = txt"
| "str_exn (BotoCoreError txt) = txt"
| "str_exn (ParamValidationError txt) = txt"
| "str_exn (KeyError k) = CHR 0x27 # k @ [CHR 0x27]"
| "str_exn (OtherException txt) = txt"

text \<open>\<open>e.response.get('Error', {}).get('Code', '')\<close>\<close>

definition response_get_code :: "(string option \<times> string option) option \<Rightarrow> string" where
  "response_get_code response =
     (case response of
        None \<Rightarrow> []
      | Some (None, msg) \<Rightarrow> []
      | Some (Some code, msg) \<Rightarrow> code)"

text \<open>\<open>e.response['Error']['Code']\<close>\<close>

definition response_code :: "(string option \<times> string option) option \<Rightarrow> exn + string" where
  "response_code response =
     (case response of
        None \<Rightarrow> Inl (KeyError ''Error'')
      | Some (None, msg) \<Rightarrow> Inl (KeyError ''Code'')
      | Some (Some code, msg) \<Rightarrow> Inr code)"

text \<open>\<open>e.response['Error']['Message']\<close>\<close>

definition response_message :: "(string option \<times> string option) option \<Rightarrow> exn + string" where
  "response_message response =
     (case response of
        None \<Rightarrow> Inl (KeyError ''Error'')
      | Some (code, None) \<Rightarrow> Inl (KeyError ''Message'')
      | Some (code, Some msg) \<Rightarrow> Inr msg)"

subsection \<open>Decorators\<close>

text \<open>
  A wrapped function is a state transformer \<open>func\<close> that returns its value (\<open>Inr\<close>) or
  the exception it raises (\<open>Inl\<close>). The wrapper returns, with the outcome and the state,
  the delays it slept, in order. Its loop runs over \<open>range(max_retries)\<close>; falling out
  of the loop returns \<open>None\<close>.
\<close>

fun retry_loop :: "nat \<Rightarrow> real \<Rightarrow> ('s \<Rightarrow> (exn + 'a) \<times> 's) \<Rightarrow> nat list \<Rightarrow> 's \<Rightarrow> real list
    \<Rightarrow> (exn + 'a option) \<times> 's \<times> real list" where
  "retry_loop max_retries base_delay func [] s slept = (Inr None, s, slept)"
| "retry_loop max_retries base_delay func (attempt # rest) s slept =
     (case func s of
        (Inr v, s') \<Rightarrow> (Inr (Some v), s', slept)
      | (Inl e, s') \<Rightarrow>
          (case e of
             ClientError response txt \<Rightarrow>
               if response_get_code response \<in> set [''Throttling'', ''RequestLimitExceeded''] then
                 if int attempt < int max_retries - 1 then
                   retry_loop max_retries base_delay func rest s'
                     (slept @ [base_delay * 2 ^ attempt])
                 else (Inl e, s', slept)
               else (Inl e, s', slept)
           | _ \<Rightarrow> (Inl e, s', slept)))"

definition retry_on_throttle :: "nat \<Rightarrow> real \<Rightarrow> ('s \<Rightarrow> (exn + 'a) \<times> 's) \<Rightarrow> 's
    \<Rightarrow> (exn + 'a option) \<times> 's \<times> real list" where
  "retry_on_throttle max_retries base_delay func s =
     retry_loop max_retries base_delay func [0..<max_retries] s []"

text \<open>\<open>audit_log\<close> writes to the log and hands the value or the exception on.\<close>

definition audit_log :: "string \<Rightarrow> ('s \<Rightarrow> (exn + 'a) \<times> 't) \<Rightarrow> 's \<Rightarrow> (exn + 'a) \<times> 't" where
  "audit_log action func s =
     (case func s of
        (Inr result, s') \<Rightarrow> (Inr result, s')
      | (Inl e, s') \<Rightarrow> (Inl e, s'))"

subsection \<open>The provisioner and its collaborators\<close>

text \<open>
  The calls the provisioner makes on its clients (identity service, secret store,
  notification service), by operation and the names it passes; tags and message bodies
  are left out.
\<close>

datatype api_call =
    IamCreateUser string
  | IamAddUserToGroup string string
  | IamAttachUserPolicy string string
  | IamCreateLoginProfile string string
  | SecretsCreateSecret string
  | SecretsPutSecretValue string
  | SnsPublish string

text \<open>
  The provisioner object with the part of the world it acts on: the calls made on the
  clients so far, the number of random draws so far and the delays slept so far. The
  collaborators are a parameter \<open>aws\<close>: \<open>aws calls c\<close> is \<open>None\<close> when the call \<open>c\<close>,
  made after the calls \<open>calls\<close>, returns, and \<open>Some e\<close> when it raises \<open>e\<close>. The random
  source is a parameter \<open>rnd\<close>: the \<open>k\<close>-th draw \<open>secrets.choice(seq)\<close> returns
  \<open>seq[rnd k mod len(seq)]\<close>.
\<close>

record IAMProvisioner =
  prov_demo_mode :: bool
  provisioned_users :: "ProvisioningResult list"
  api_calls :: "api_call list"
  random_draws :: nat
  slept_delays :: "real list"

definition client_call :: "(api_call list \<Rightarrow> api_call \<Rightarrow> exn option) \<Rightarrow> api_call \<Rightarrow> IAMProvisioner
    \<Rightarrow> (exn + unit) \<times> IAMProvisioner" where
  "client_call aws c p =
     (case aws (api_calls p) c of
        None \<Rightarrow> (Inr (), p\<lparr>api_calls := api_calls p @ [c]\<rparr>)
      | Some e \<Rightarrow> (Inl e, p\<lparr>api_calls := api_calls p @ [c]\<rparr>))"

definition secrets_choice :: "(nat \<Rightarrow> nat) \<Rightarrow> string \<Rightarrow> IAMProvisioner \<Rightarrow> char \<times> IAMProvisioner" where
  "secrets_choice rnd seq p =
     (seq ! (rnd (random_draws p) mod length seq), p\<lparr>random_draws := Suc (random_draws p)\<rparr>)"

subsection \<open>Provisioning steps\<close>

definition create_iam_user :: "(api_call list \<Rightarrow> api_call \<Rightarrow> exn option) \<Rightarrow> UserRequest \<Rightarrow> IAMProvisioner
    \<Rightarrow> (exn + unit) \<times> IAMProvisioner" where
  "create_iam_user aws request p =
     (if prov_demo_mode p then (Inr (), p)
      else client_call aws (IamCreateUser (username request)) p)"

text \<open>
  The loop of \<open>_assign_groups\<close>. A Python \<open>for\<close> over a list reads the element at
  the next position as long as that position is inside the list as it is then;
  \<open>groups.remove(group)\<close> deletes the first element equal to \<open>group\<close>.
\<close>

function assign_groups_loop :: "(api_call list \<Rightarrow> api_call \<Rightarrow> exn option) \<Rightarrow> UserRequest \<Rightarrow> nat
    \<Rightarrow> string list \<Rightarrow> IAMProvisioner \<Rightarrow> (exn + string list) \<times> IAMProvisioner" where
  "assign_groups_loop aws request i groups p =
     (if i < length groups then
        (let group = groups ! i in
         if prov_demo_mode p then assign_groups_loop aws request (Suc i) groups p
         else
           (case client_call aws (IamAddUserToGroup (username request) group) p of
              (Inr u, p1) \<Rightarrow> assign_groups_loop aws request (Suc i) groups p1
            | (Inl e, p1) \<Rightarrow>
                (case e of
                   ClientError response txt \<Rightarrow>
                     (case response_code response of
                        Inl key_error \<Rightarrow> (Inl key_error, p1)
                      | Inr error_code \<Rightarrow>
                          if error_code = ''NoSuchEntity''
                          then assign_groups_loop aws request (Suc i) (remove1 group groups) p1
                          else (Inl e, p1))
                 | _ \<Rightarrow> (Inl e, p1))))
      else (Inr groups, p))"
  by pat_completeness auto
termination
proof (relation "measure (\<lambda>(aws, request, i, groups, p). length groups - i)")
  show "wf (measure (\<lambda>(aws, request, i, groups, p). length groups - i))"
    by simp
next
  fix aws :: "api_call list \<Rightarrow> api_call \<Rightarrow> exn option"
    and request :: UserRequest and i :: nat and groups :: "string list" and p :: IAMProvisioner
  assume "i < length groups"
  then show "((aws, request, Suc i, groups, p), (aws, request, i, groups, p))
      \<in> measure (\<lambda>(aws, request, i, groups, p). length groups - i)"
    by simp
next
  fix aws :: "api_call list \<Rightarrow> api_call \<Rightarrow> exn option"
    and request :: UserRequest and i :: nat and groups :: "string list"
    and p p1 :: IAMProvisioner
  assume "i < length groups"
  then show "((aws, request, Suc i, groups, p1), (aws, request, i, groups, p))
      \<in> measure (\<lambda>(aws, request, i, groups, p). length groups - i)"
    by simp
next
  fix aws :: "api_call list \<Rightarrow> api_call \<Rightarrow> exn option"
    and request :: UserRequest and i :: nat and groups :: "string list"
    and p p1 :: IAMProvisioner and group :: string
  assume "i < length groups" and "group = groups ! i"
  then have "group \<in> set groups"
    by simp
  then have "length (remove1 group groups) = length groups - 1"
    by (simp add: length_remove1)
  with \<open>i < length groups\<close>
  show "((aws, request, Suc i, remove1 group groups, p1), (aws, request, i, groups, p))
      \<in> measure (\<lambda>(aws, request, i, groups, p). length groups - i)"
    by simp
qed

declare assign_groups_loop.simps [simp del]

definition assign_groups :: "(api_call list \<Rightarrow> api_call \<Rightarrow> exn option) \<Rightarrow> UserRequest \<Rightarrow> IAMProvisioner
    \<Rightarrow> (exn + string list) \<times> IAMProvisioner" where
  "assign_groups aws request p =
     (let groups = [DEFAULT_GROUP];
          groups = (case map_of DEPARTMENT_GROUPS (department request) of
                      Some dept_groups \<Rightarrow> groups @ dept_groups
                    | None \<Rightarrow> groups)
      in assign_groups_loop aws request 0 groups p)"

fun attach_policies_loop :: "(api_call list \<Rightarrow> api_call \<Rightarrow> exn option) \<Rightarrow> UserRequest \<Rightarrow> string list
    \<Rightarrow> IAMProvisioner \<Rightarrow> (exn + unit) \<times> IAMProvisioner" where
  "attach_policies_loop aws request [] p = (Inr (), p)"
| "attach_policies_loop aws request (policy_arn # rest) p =
     (if prov_demo_mode p then attach_policies_loop aws request rest p
      else
        (case client_call aws (IamAttachUserPolicy (username request) policy_arn) p of
           (Inr u, p1) \<Rightarrow> attach_policies_loop aws request rest p1
         | (Inl e, p1) \<Rightarrow> (Inl e, p1)))"

definition attach_policies :: "(api_call list \<Rightarrow> api_call \<Rightarrow> exn option) \<Rightarrow> UserRequest \<Rightarrow> IAMProvisioner
    \<Rightarrow> (exn + string list) \<times> IAMProvisioner" where
  "attach_policies aws request p =
     (case map_of ROLE_POLICIES (role request) of
        None \<Rightarrow> (Inr [], p)
      | Some policies \<Rightarrow>
          (case attach_policies_loop aws request policies p of
             (Inr u, p1) \<Rightarrow> (Inr policies, p1)
           | (Inl e, p1) \<Rightarrow> (Inl e, p1)))"

subsection \<open>Password generation\<close>

definition ascii_lowercase :: string where
  "ascii_lowercase = ''abcdefghijklmnopqrstuvwxyz''"

definition ascii_uppercase :: string where
  "ascii_uppercase = ''ABCDEFGHIJKLMNOPQRSTUVWXYZ''"

definition ascii_letters :: string where
  "ascii_letters = ascii_lowercase @ ascii_uppercase"

definition digits :: string where
  "digits = ''0123456789''"

definition alphabet :: string where
  "alphabet = ascii_letters @ digits @ ''!@#$%^&*''"

text \<open>
  \<open>str.isupper\<close>, \<open>str.islower\<close> and \<open>str.isdigit\<close> on one character of the
  alphabet above, where they hold of the upper-case letters, the lower-case letters and
  the digits of ASCII.
\<close>

definition isupper :: "char \<Rightarrow> bool" where
  "isupper c = (c \<in> set ascii_uppercase)"

definition islower :: "char \<Rightarrow> bool" where
  "islower c = (c \<in> set ascii_lowercase)"

definition isdigit :: "char \<Rightarrow> bool" where
  "isdigit c = (c \<in> set digits)"

text \<open>\<open>n\<close> draws from \<open>seq\<close>, in order: the generator expression under \<open>join\<close>.\<close>

fun draw_chars :: "(nat \<Rightarrow> nat) \<Rightarrow> string \<Rightarrow> nat \<Rightarrow> IAMProvisioner \<Rightarrow> string \<times> IAMProvisioner" where
  "draw_chars rnd seq 0 p = ([], p)"
| "draw_chars rnd seq (Suc n) p =
     (case secrets_choice rnd seq p of (c, p1) \<Rightarrow>
        (case draw_chars rnd seq n p1 of (cs, p2) \<Rightarrow> (c # cs, p2)))"

text \<open>
  \<open>password[0]\<close> is \<open>password ! 0\<close>: the password has \<open>PASSWORD_LENGTH\<close> characters
  there, so the index is in range.
\<close>

definition generate_password :: "(nat \<Rightarrow> nat) \<Rightarrow> IAMProvisioner \<Rightarrow> string \<times> IAMProvisioner" where
  "generate_password rnd p =
     (case draw_chars rnd alphabet PASSWORD_LENGTH p of (password, p1) \<Rightarrow>
      (case (if \<not> list_ex isupper password
             then (case secrets_choice rnd ascii_uppercase p1 of (c, q) \<Rightarrow> (c # drop 1 password, q))
             else (password, p1)) of (password, p2) \<Rightarrow>
      (case (if \<not> list_ex islower password
             then (case secrets_choice rnd ascii_lowercase p2 of
                     (c, q) \<Rightarrow> (password ! 0 # c # drop 2 password, q))
             else (password, p2)) of (password, p3) \<Rightarrow>
      (if \<not> list_ex isdigit password
       then (case secrets_choice rnd digits p3 of (c, q) \<Rightarrow> (take 2 password @ c # drop 3 password, q))
       else (password, p3)))))"

subsection \<open>Credentials and notification\<close>

definition set_login_profile :: "(api_call list \<Rightarrow> api_call \<Rightarrow> exn option) \<Rightarrow> string \<Rightarrow> string \<Rightarrow> IAMProvisioner
    \<Rightarrow> (exn + unit) \<times> IAMProvisioner" where
  "set_login_profile aws uname password p =
     (if prov_demo_mode p then (Inr (), p)
      else client_call aws (IamCreateLoginProfile uname password) p)"

definition store_credentials :: "(api_call list \<Rightarrow> api_call \<Rightarrow> exn option) \<Rightarrow> UserRequest \<Rightarrow> string \<Rightarrow> IAMProvisioner
    \<Rightarrow> (exn + string) \<times> IAMProvisioner" where
  "store_credentials aws request password p =
     (let secret_name = ''iam-credentials/'' @ department request @ ''/'' @ username request in
      if prov_demo_mode p then (Inr (''secretsmanager:'' @ secret_name), p)
      else
        (case client_call aws (SecretsCreateSecret secret_name) p of
           (Inr u, p1) \<Rightarrow> (Inr (''secretsmanager:'' @ secret_name), p1)
         | (Inl e, p1) \<Rightarrow>
             (case e of
                ClientError response txt \<Rightarrow>
                  (case response_code response of
                     Inl key_error \<Rightarrow> (Inl key_error, p1)
                   | Inr error_code \<Rightarrow>
                       if error_code = ''ResourceExistsException'' then
                         (case client_call aws (SecretsPutSecretValue secret_name) p1 of
                            (Inr u, p2) \<Rightarrow> (Inr (''secretsmanager:'' @ secret_name), p2)
                          | (Inl e2, p2) \<Rightarrow> (Inl e2, p2))
                       else (Inl e, p1))
              | _ \<Rightarrow> (Inl e, p1))))"

definition send_notification :: "(api_call list \<Rightarrow> api_call \<Rightarrow> exn option) \<Rightarrow> UserRequest \<Rightarrow> string \<Rightarrow> IAMProvisioner
    \<Rightarrow> (exn + unit) \<times> IAMProvisioner" where
  "send_notification aws request creds_location p =
     (if prov_demo_mode p then (Inr (), p)
      else client_call aws (SnsPublish (username request)) p)"

subsection \<open>The orchestrator\<close>

text \<open>
  The \<open>except\<close> clauses of \<open>create_user\<close>, in their order: a \<open>ParamValidationError\<close>
  is a \<open>BotoCoreError\<close> and is caught by that clause; any other exception, a
  \<open>KeyError\<close> among them, is caught by the last. Building the message of a
  \<open>ClientError\<close> whose code is \<open>InvalidInput\<close> reads the message of the response,
  which raises \<open>KeyError\<close> when the response has none.
\<close>

definition error_message :: "UserRequest \<Rightarrow> exn \<Rightarrow> exn + string" where
  "error_message request e =
     (case e of
        ClientError response txt \<Rightarrow>
          (let error_code = response_get_code response in
           if error_code = ''EntityAlreadyExists''
             then Inr (''User '' @ username request @ '' already exists'')
           else if error_code = ''LimitExceeded''
             then Inr ''IAM user limit reached - contact AWS support''
           else if error_code = ''MalformedPolicyDocument'' then Inr ''Invalid policy document''
           else if error_code = ''NoSuchEntity'' then Inr ''Referenced resource not found''
           else if error_code = ''InvalidInput'' then
             (case response_message response of
                Inl key_error \<Rightarrow> Inl key_error
              | Inr msg \<Rightarrow> Inr (''Invalid input: '' @ msg))
           else Inr txt)
      | BotoCoreError txt \<Rightarrow> Inr (''AWS connection error: '' @ txt)
      | ParamValidationError txt \<Rightarrow> Inr (''AWS connection error: '' @ txt)
      | KeyError k \<Rightarrow> Inr (''Unexpected error: '' @ str_exn e)
      | OtherException txt \<Rightarrow> Inr (''Unexpected error: '' @ txt))"

text \<open>
  What an \<open>except\<close> clause does with the exception \<open>e\<close>: it returns the failure
  result, or the exception raised while building the message leaves \<open>create_user\<close>.
\<close>

definition failure_result :: "UserRequest \<Rightarrow> exn \<Rightarrow> string list \<Rightarrow> string list
    \<Rightarrow> exn + ProvisioningResult" where
  "failure_result request e groups policies =
     (case error_message request e of
        Inl raised \<Rightarrow> Inl raised
      | Inr error_text \<Rightarrow>
          Inr \<lparr>res_username = username request,
               success = False,
               message = error_text,
               groups_assigned = groups,
               policies_attached = policies,
               credentials_location = None\<rparr>)"

text \<open>The body of \<open>create_user\<close>, under its decorators.\<close>

definition create_user_body :: "(api_call list \<Rightarrow> api_call \<Rightarrow> exn option) \<Rightarrow> (nat \<Rightarrow> nat) \<Rightarrow> UserRequest
    \<Rightarrow> IAMProvisioner \<Rightarrow> (exn + ProvisioningResult) \<times> IAMProvisioner" where
  "create_user_body aws rnd request p =
     (if \<not> validate request then
        (Inr \<lparr>res_username = username request,
              success = False,
              message = ''Validation failed'',
              groups_assigned = [],
              policies_attached = [],
              credentials_location = None\<rparr>, p)
      else
        (case create_iam_user aws request p of
           (Inl e, p1) \<Rightarrow> (failure_result request e [] [], p1)
         | (Inr u1, p1) \<Rightarrow>
        (case assign_groups aws request p1 of
           (Inl e, p2) \<Rightarrow> (failure_result request e [] [], p2)
         | (Inr groups, p2) \<Rightarrow>
        (case attach_policies aws request p2 of
           (Inl e, p3) \<Rightarrow> (failure_result request e groups [], p3)
         | (Inr policies, p3) \<Rightarrow>
        (case generate_password rnd p3 of (password, p4) \<Rightarrow>
        (case set_login_profile aws (username request) password p4 of
           (Inl e, p5) \<Rightarrow> (failure_result request e groups policies, p5)
         | (Inr u5, p5) \<Rightarrow>
        (case store_credentials aws request password p5 of
           (Inl e, p6) \<Rightarrow> (failure_result request e groups policies, p6)
         | (Inr creds_location, p6) \<Rightarrow>
        (case send_notification aws request creds_location p6 of
           (Inl e, p7) \<Rightarrow> (failure_result request e groups policies, p7)
         | (Inr u7, p7) \<Rightarrow>
             (let result =
                \<lparr>res_username = username request,
                 success = True,
                 message = ''User provisioned successfully'',
                 groups_assigned = groups,
                 policies_attached = policies,
                 credentials_location = Some creds_location\<rparr>
              in (Inr result, p7\<lparr>provisioned_users := provisioned_users p7 @ [result]\<rparr>))))))))))"

text \<open>
  \<open>create_user\<close> as its callers see it: the body under \<open>retry_on_throttle()\<close> (three
  attempts, base delay 1.0) under \<open>audit_log("CREATE_USER")\<close>.
\<close>

definition create_user :: "(api_call list \<Rightarrow> api_call \<Rightarrow> exn option) \<Rightarrow> (nat \<Rightarrow> nat) \<Rightarrow> UserRequest
    \<Rightarrow> IAMProvisioner \<Rightarrow> (exn + ProvisioningResult option) \<times> IAMProvisioner" where
  "create_user aws rnd request =
     audit_log ''CREATE_USER''
       (\<lambda>p. case retry_on_throttle 3 1 (create_user_body aws rnd request) p of
               (out, p', delays) \<Rightarrow> (out, p'\<lparr>slept_delays := slept_delays p' @ delays\<rparr>))"

text \<open>
  A batch: the requests in input order, each through \<open>create_user\<close>, the returned
  values collected in order; an exception out of \<open>create_user\<close> ends the batch.
\<close>

fun provision_batch :: "(api_call list \<Rightarrow> api_call \<Rightarrow> exn option) \<Rightarrow> (nat \<Rightarrow> nat) \<Rightarrow> UserRequest list
    \<Rightarrow> IAMProvisioner \<Rightarrow> (exn + ProvisioningResult option list) \<times> IAMProvisioner" where
  "provision_batch aws rnd [] p = (Inr [], p)"
| "provision_batch aws rnd (request # requests) p =
     (case create_user aws rnd request p of
        (Inl e, p1) \<Rightarrow> (Inl e, p1)
      | (Inr result, p1) \<Rightarrow>
          (case provision_batch aws rnd requests p1 of
             (Inl e, p2) \<Rightarrow> (Inl e, p2)
           | (Inr results, p2) \<Rightarrow> (Inr (result # results), p2)))"

subsection \<open>Reporting\<close>

text \<open>
  The summary dictionary. \<open>success_rate\<close> is the float the source formats to one
  decimal place, before formatting.
\<close>

record Summary =
  total_processed :: int
  successful :: int
  failed :: int
  success_rate :: rat
  users_provisioned :: "string list"
  users_failed :: "(string \<times> string) list"

definition get_summary :: "IAMProvisioner \<Rightarrow> Summary" where
  "get_summary p =
     (let succeeded = filter (\<lambda>r. success r) (provisioned_users p);
          failures = filter (\<lambda>r. \<not> success r) (provisioned_users p)
      in \<lparr>total_processed = int (length (provisioned_users p)),
          successful = int (length succeeded),
          failed = int (length failures),
          success_rate =
            float_value
              (float_mul
                 (int_truediv (int (length succeeded)) (max (int (length (provisioned_users p))) 1))
                 (float_of_int 100)),
          users_provisioned = map res_username succeeded,
          users_failed = map (\<lambda>r. (res_username r, message r)) failures\<rparr>)"

section \<open>Vocabulary and concrete inputs of the statements\<close>

subsection \<open>Findings, requests and a provisioner of the repository's tests\<close>

text \<open>
  The two findings of \<open>test_compliance_score_calculation\<close>, the request of
  \<open>test_create_user_invalid_request\<close>, a provisioner in demo mode, and requests
  that differ in username and email only.
\<close>

definition test_finding_1 :: Finding where
  "test_finding_1 = \<lparr>rule_id = ''TEST-1'', rule_name = ''Test'', resource_type = ''User'',
     resource_id = ''user1'', severity = HIGH, status = NON_COMPLIANT, description = ''Test'',
     recommendation = ''Test'', details = []\<rparr>"

definition test_finding_2 :: Finding where
  "test_finding_2 = \<lparr>rule_id = ''TEST-2'', rule_name = ''Test'', resource_type = ''User'',
     resource_id = ''user2'', severity = INFO, status = COMPLIANT, description = ''Test'',
     recommendation = ''Test'', details = []\<rparr>"

definition invalid_request :: UserRequest where
  "invalid_request = \<lparr>username = ''ab'', email = ''invalid'', department = ''IT'',
     role = ''Developer'', first_name = '''', last_name = '''', manager = None\<rparr>"

definition demo_provisioner :: IAMProvisioner where
  "demo_provisioner = \<lparr>prov_demo_mode = True, provisioned_users = [], api_calls = [],
     random_draws = 0, slept_delays = []\<rparr>"

definition request_with :: "string \<Rightarrow> string \<Rightarrow> UserRequest" where
  "request_with uname mail = \<lparr>username = uname, email = mail, department = ''Engineering'',
     role = ''Developer'', first_name = ''John'', last_name = ''Smith'', manager = None\<rparr>"

subsection \<open>Attempts of a wrapped function\<close>

text \<open>
  For the statements about \<open>retry_on_throttle\<close>: the state in which the wrapped
  function is called for the \<open>k\<close>-th time (counting from 0) when every earlier call
  was followed by another, what that call returns or raises, whether an outcome is a
  throttling failure, and an outcome as the wrapper hands it on.
\<close>

definition state_before :: "('s \<Rightarrow> (exn + 'a) \<times> 's) \<Rightarrow> 's \<Rightarrow> nat \<Rightarrow> 's" where
  "state_before func s k = ((\<lambda>t. snd (func t)) ^^ k) s"

definition attempt_outcome :: "('s \<Rightarrow> (exn + 'a) \<times> 's) \<Rightarrow> 's \<Rightarrow> nat \<Rightarrow> exn + 'a" where
  "attempt_outcome func s k = fst (func (state_before func s k))"

definition is_throttle :: "exn + 'a \<Rightarrow> bool" where
  "is_throttle out =
     (case out of
        Inl (ClientError response txt) \<Rightarrow>
          response_get_code response = ''Throttling''
          \<or> response_get_code response = ''RequestLimitExceeded''
      | _ \<Rightarrow> False)"

definition wrapped_outcome :: "exn + 'a \<Rightarrow> exn + 'a option" where
  "wrapped_outcome out = (case out of Inl e \<Rightarrow> Inl e | Inr v \<Rightarrow> Inr (Some v))"

subsection \<open>Wrapped functions for the retry wrapper\<close>

text \<open>Their state counts the calls made.\<close>

definition throttled_twice :: "nat \<Rightarrow> (exn + string) \<times> nat" where
  "throttled_twice n =
     (if n < 2 then Inl (ClientError (Some (Some ''Throttling'', Some ''Rate exceeded'')) ''Throttling: Rate exceeded'')
      else Inr ''done'', Suc n)"

definition always_throttled :: "nat \<Rightarrow> (exn + string) \<times> nat" where
  "always_throttled n =
     (Inl (ClientError (Some (Some ''RequestLimitExceeded'', Some ''Request limit exceeded'')) (str_nat n)), Suc n)"

definition access_denied :: "nat \<Rightarrow> (exn + string) \<times> nat" where
  "access_denied n = (Inl (ClientError (Some (Some ''AccessDenied'', Some ''Denied'')) ''AccessDenied: Denied''), Suc n)"

subsection \<open>Vocabulary of the audit statements\<close>

text \<open>
  The whole-day age of an access key at an instant, as \<open>_check_access_key_age\<close>
  computes it, and two auditors that agree on mode and findings (they may differ in how
  often the clock has been read).
\<close>

definition key_age :: "int \<Rightarrow> AccessKey \<Rightarrow> int" where
  "key_age now key = timedelta_days (now - KeyCreateDate key)"

definition same_audit :: "IAMComplianceAuditor \<Rightarrow> IAMComplianceAuditor \<Rightarrow> bool" where
  "same_audit a b = (aud_demo_mode a = aud_demo_mode b \<and> aud_findings a = aud_findings b)"

subsection \<open>Identities and auditors\<close>

text \<open>
  A day in microseconds; an identity with an inactive old key, an active key created
  exactly 90 days before the instant \<open>100 * day\<close> and an active key created 91 days
  before it; an auditor that starts empty and one that still holds a finding of an
  earlier run.
\<close>

definition day :: int where
  "day = 86400000000"

definition key_91_days :: AccessKey where
  "key_91_days = \<lparr>AccessKeyId = ''AKIA91'', Status = ''Active'', KeyCreateDate = 9 * day\<rparr>"

definition key_90_days :: AccessKey where
  "key_90_days = \<lparr>AccessKeyId = ''AKIA90'', Status = ''Active'', KeyCreateDate = 10 * day\<rparr>"

definition key_inactive :: AccessKey where
  "key_inactive = \<lparr>AccessKeyId = ''AKIAOLD'', Status = ''Inactive'', KeyCreateDate = 0\<rparr>"

definition key_user :: IdentityRecord where
  "key_user = \<lparr>UserName = ''old_key_user'', UserId = ''AIDATEST'', CreateDate = 0,
     PasswordLastUsed = None, MFADevices = [],
     AccessKeys = [key_inactive, key_90_days, key_91_days],
     AttachedPolicies = [], Groups = []\<rparr>"

definition fresh_auditor :: IAMComplianceAuditor where
  "fresh_auditor = \<lparr>aud_demo_mode = True, aud_findings = [], clock_reads = 0\<rparr>"

definition stale_auditor :: IAMComplianceAuditor where
  "stale_auditor = \<lparr>aud_demo_mode = True, aud_findings = [test_finding_1], clock_reads = 7\<rparr>"

subsection \<open>Vocabulary of the provisioning statements\<close>

text \<open>
  What a provisioning step may do to the provisioner and its world: make further calls on
  the clients, after those already made, and draw random characters. It neither touches
  the result list nor the mode, and it does not sleep.
\<close>

definition step_effect :: "IAMProvisioner \<Rightarrow> IAMProvisioner \<Rightarrow> bool" where
  "step_effect p p' =
     ((\<exists>calls. api_calls p' = api_calls p @ calls)
      \<and> provisioned_users p' = provisioned_users p
      \<and> prov_demo_mode p' = prov_demo_mode p
      \<and> slept_delays p' = slept_delays p)"

subsection \<open>Requests, provisioners and collaborators\<close>

text \<open>
  A provisioner against the live services, the request of the repository's test
  \<open>test_create_user_demo_mode\<close>, an identity service that refuses every policy
  attachment, one that refuses to add a user to VPN-Access, one that answers the creation
  of a user with an InvalidInput error whose response carries no message, a random source
  whose second draw is the only upper-case letter, and an identity service in which the
  groups IT-Users and VPN-Access do not exist.
\<close>

definition live_provisioner :: IAMProvisioner where
  "live_provisioner = \<lparr>prov_demo_mode = False, provisioned_users = [], api_calls = [],
     random_draws = 0, slept_delays = []\<rparr>"

definition it_developer :: UserRequest where
  "it_developer = \<lparr>username = ''testuser'', email = ''test@company.com'', department = ''IT'',
     role = ''Developer'', first_name = ''Test'', last_name = ''User'', manager = None\<rparr>"






definition draws_one_upper :: "nat \<Rightarrow> nat" where
  "draws_one_upper k = (if k = 1 then 26 else 52)"

definition no_such_entity :: exn where
  "no_such_entity = ClientError (Some (Some ''NoSuchEntity'', Some ''The group cannot be found''))
     ''NoSuchEntity: The group cannot be found''"

definition aws_missing_groups :: "api_call list \<Rightarrow> api_call \<Rightarrow> exn option" where
  "aws_missing_groups calls c =
     (case c of
        IamAddUserToGroup u g \<Rightarrow>
          if g = ''IT-Users'' \<or> g = ''VPN-Access'' then Some no_such_entity else None
      | _ \<Rightarrow> None)"

section \<open>Verified properties\<close>

subsection \<open>Shared lemmas\<close>

lemma fst_generate_report:
  "fst (generate_report clk n a) =
     \<lparr>scan_timestamp = clk (clock_reads a),
      total_users = n,
      total_findings = int (length (aud_findings a)),
      critical_count = int (length (filter (\<lambda>f. severity f = CRITICAL) (aud_findings a))),
      high_count = int (length (filter (\<lambda>f. severity f = HIGH) (aud_findings a))),
      medium_count = int (length (filter (\<lambda>f. severity f = MEDIUM) (aud_findings a))),
      low_count = int (length (filter (\<lambda>f. severity f = LOW) (aud_findings a))),
      compliance_score =
        float_value
          (float_mul
             (int_truediv
                (int (length (aud_findings a))
                   - int (length (filter (\<lambda>f. status f = NON_COMPLIANT) (aud_findings a))))
                (max (int (length (aud_findings a))) 1))
             (float_of_int 100)),
      findings = aud_findings a\<rparr>"
  by (simp add: generate_report_def datetime_now_def Let_def)

text \<open>Floats at the values the statements name.\<close>

lemma float_of_int_100: "float_of_int 100 = (7036874417766400, - 46)"
  by (simp add: float_of_int_def round_scaled_def round_half_even_def binade_def
      bit_length.simps Let_def)

lemma int_truediv_1_1: "int_truediv 1 1 = (4503599627370496, - 52)"
  by (simp add: int_truediv_def round_scaled_def round_half_even_def binade_def
      bit_length.simps Let_def)

lemma int_truediv_1_2: "int_truediv 1 2 = (4503599627370496, - 53)"
  by (simp add: int_truediv_def round_scaled_def round_half_even_def binade_def
      bit_length.simps Let_def)

lemma int_truediv_1_4: "int_truediv 1 4 = (4503599627370496, - 54)"
  by (simp add: int_truediv_def round_scaled_def round_half_even_def binade_def
      bit_length.simps Let_def)

lemma int_truediv_7_25: "int_truediv 7 25 = (5044031582654956, - 54)"
  by (simp add: int_truediv_def round_scaled_def round_half_even_def binade_def
      bit_length.simps Let_def)

lemma percent_1_1: "float_value (float_mul (int_truediv 1 1) (float_of_int 100)) = 100"
  by (simp add: int_truediv_1_1 float_of_int_100 float_mul_def float_value_def round_scaled_def
      round_half_even_def binade_def bit_length.simps Let_def)

lemma percent_1_2: "float_value (float_mul (int_truediv 1 2) (float_of_int 100)) = 50"
  by (simp add: int_truediv_1_2 float_of_int_100 float_mul_def float_value_def round_scaled_def
      round_half_even_def binade_def bit_length.simps Let_def)

lemma percent_1_4: "float_value (float_mul (int_truediv 1 4) (float_of_int 100)) = 25"
  by (simp add: int_truediv_1_4 float_of_int_100 float_mul_def float_value_def round_scaled_def
      round_half_even_def binade_def bit_length.simps Let_def)

lemma percent_7_25:
  "float_value (float_mul (int_truediv 7 25) (float_of_int 100)) = 7881299347898369 / 281474976710656"
  by (simp add: int_truediv_7_25 float_of_int_100 float_mul_def float_value_def round_scaled_def
      round_half_even_def binade_def bit_length.simps Let_def)

text \<open>
  The only exception that leaves the body of \<open>create_user\<close> is a \<open>KeyError\<close>, so
  the decorators hand on what the body returns or raises, and its state, as they are.
\<close>

lemma error_message_raises:
  "error_message request e = Inl raised \<Longrightarrow> \<exists>k. raised = KeyError k"
  by (auto simp: error_message_def response_message_def Let_def
      split: exn.splits option.splits prod.splits if_splits sum.splits)

lemma failure_result_raises:
  "failure_result request e groups policies = Inl raised \<Longrightarrow> \<exists>k. raised = KeyError k"
  by (auto simp: failure_result_def split: sum.splits dest: error_message_raises)

lemma create_user_body_raises:
  "create_user_body aws rnd request p = (Inl raised, p') \<Longrightarrow> \<exists>k. raised = KeyError k"
  by (auto simp: create_user_body_def Let_def split: if_splits prod.splits sum.splits
      dest: failure_result_raises)

lemma create_user_unfold:
  "create_user aws rnd request p =
     (case create_user_body aws rnd request p of
        (Inr r, p') \<Rightarrow> (Inr (Some r), p')
      | (Inl raised, p') \<Rightarrow> (Inl raised, p'))"
proof -
  have upt3: "[0..<3] = [0, 1, 2]"
    by (simp add: upt_rec)
  obtain out p' where body: "create_user_body aws rnd request p = (out, p')"
    by (cases "create_user_body aws rnd request p")
  show ?thesis
  proof (cases out)
    case (Inr r)
    with body show ?thesis
      by (simp add: create_user_def audit_log_def retry_on_throttle_def upt3)
  next
    case (Inl raised)
    with body obtain k where "raised = KeyError k"
      using create_user_body_raises [of aws rnd request p raised p'] by auto
    with body Inl show ?thesis
      by (simp add: create_user_def audit_log_def retry_on_throttle_def upt3)
  qed
qed

subsection \<open>Claims\<close>

text \<open>
  C1, as stated, at an input where it fails. For 25 findings of which 18 are
  non-compliant, (25 - 18) / max(25, 1) * 100 is 28. The report's score is the float next
  above 28, which Python prints as 28.000000000000004: the quotient 7 / 25 is rounded to
  a float a little above 0.28, and its product with 100 is rounded up.
\<close>

theorem generate_report_score_not_exact:
  "compliance_score (fst (generate_report (\<lambda>k. 0) 5
      \<lparr>aud_demo_mode = True,
        aud_findings = replicate 18 test_finding_1 @ replicate 7 test_finding_2,
        clock_reads = 0\<rparr>)) = 28 + 1 / 2 ^ 48
   \<and> compliance_score (fst (generate_report (\<lambda>k. 0) 5
      \<lparr>aud_demo_mode = True,
        aud_findings = replicate 18 test_finding_1 @ replicate 7 test_finding_2,
        clock_reads = 0\<rparr>)) \<noteq> rat_of_int (25 - 18) / rat_of_int (max 25 1) * 100"
  by (simp add: fst_generate_report test_finding_1_def test_finding_2_def percent_7_25)

text \<open>
  C1, amended. The report's compliance score is the float that Python's arithmetic gives
  for (total findings - non-compliant findings) / max(total findings, 1) * 100: the
  quotient of the two integers rounded to a float, times 100, rounded again. Every
  finding of the list counts as a check, whatever its status or severity. For a list of
  exactly two findings, one non-compliant and one compliant, the score is exactly 50.
\<close>

theorem generate_report_compliance_score:
  "(let r = fst (generate_report clk n a);
        non_compliant_count = int (length (filter (\<lambda>f. status f = NON_COMPLIANT) (findings r)))
    in findings r = aud_findings a
     \<and> total_findings r = int (length (aud_findings a))
     \<and> compliance_score r =
         float_value
           (float_mul
              (int_truediv (total_findings r - non_compliant_count) (max (total_findings r) 1))
              (float_of_int 100))
     \<and> (\<forall>f1 f2. aud_findings a = [f1, f2]
           \<and> (status f1 = NON_COMPLIANT \<and> status f2 = COMPLIANT
              \<or> status f1 = COMPLIANT \<and> status f2 = NON_COMPLIANT)
           \<longrightarrow> compliance_score r = 50))"
  unfolding Let_def fst_generate_report by (auto simp: percent_1_2)

theorem generate_report_compliance_score_witness:
  "compliance_score (fst (generate_report (\<lambda>k. 0) 5
      \<lparr>aud_demo_mode = True, aud_findings = [test_finding_1, test_finding_2], clock_reads = 0\<rparr>)) = 50"
  using generate_report_compliance_score
    [of "\<lambda>k. 0" 5 "\<lparr>aud_demo_mode = True, aud_findings = [test_finding_1, test_finding_2], clock_reads = 0\<rparr>",
      unfolded Let_def, THEN conjunct2, THEN conjunct2, THEN conjunct2, rule_format,
      of test_finding_1 test_finding_2]
  by (simp add: test_finding_1_def test_finding_2_def)

text \<open>
  C4. \<open>validate\<close> holds exactly when username, email, department and role are all
  non-empty, the email contains an at sign and the username has between 3 and 64
  characters. So a username of length 2 or 65 fails, an email without an at sign fails
  whatever the other fields are, and a username of length 3 or 64 passes when the other
  fields are well formed.
\<close>

theorem validate_iff:
  "(validate r \<longleftrightarrow>
      username r \<noteq> [] \<and> email r \<noteq> [] \<and> department r \<noteq> [] \<and> role r \<noteq> []
      \<and> CHR ''@'' \<in> set (email r) \<and> 3 \<le> length (username r) \<and> length (username r) \<le> 64)
   \<and> (length (username r) = 2 \<or> length (username r) = 65 \<longrightarrow> \<not> validate r)
   \<and> (CHR ''@'' \<notin> set (email r) \<longrightarrow> \<not> validate r)
   \<and> ((length (username r) = 3 \<or> length (username r) = 64)
        \<and> CHR ''@'' \<in> set (email r) \<and> department r \<noteq> [] \<and> role r \<noteq> [] \<longrightarrow> validate r)"
  by (auto simp: validate_def)

theorem validate_iff_witness:
  "\<not> validate (request_with ''js'' ''jsmith@company.com'')
   \<and> \<not> validate (request_with (replicate 65 CHR ''a'') ''test@company.com'')
   \<and> validate (request_with ''abc'' ''jsmith@company.com'')
   \<and> validate (request_with (replicate 64 CHR ''a'') ''test@company.com'')
   \<and> \<not> validate (request_with ''jsmith'' ''invalid-email'')"
  using validate_iff [of "request_with ''js'' ''jsmith@company.com''"]
    validate_iff [of "request_with (replicate 65 CHR ''a'') ''test@company.com''"]
    validate_iff [of "request_with ''abc'' ''jsmith@company.com''"]
    validate_iff [of "request_with (replicate 64 CHR ''a'') ''test@company.com''"]
    validate_iff [of "request_with ''jsmith'' ''invalid-email''"]
  by (simp add: request_with_def)

text \<open>
  C5. For a request that fails validation, \<open>create_user\<close> returns the failure result
  (not successful, message "Validation failed", no groups, no policies) and leaves the
  provisioner and its world as they were: no call on any client, no random draw, nothing
  appended to the result list, no delay slept.
\<close>

theorem create_user_validation_failure:
  "\<not> validate request \<Longrightarrow>
     create_user aws rnd request p =
       (Inr (Some \<lparr>res_username = username request, success = False,
                    message = ''Validation failed'', groups_assigned = [],
                    policies_attached = [], credentials_location = None\<rparr>), p)"
  by (simp add: create_user_unfold create_user_body_def)

theorem create_user_validation_failure_witness:
  "\<not> validate invalid_request \<and>
   create_user (\<lambda>calls c. None) (\<lambda>k. 0) invalid_request demo_provisioner =
     (Inr (Some \<lparr>res_username = ''ab'', success = False,
                  message = ''Validation failed'', groups_assigned = [],
                  policies_attached = [], credentials_location = None\<rparr>), demo_provisioner)"
proof -
  have h: "\<not> validate invalid_request"
    by (simp add: validate_def invalid_request_def)
  show ?thesis
    using h create_user_validation_failure [OF h, of "\<lambda>calls c. None" "\<lambda>k. 0" demo_provisioner]
    by (simp add: invalid_request_def)
qed

text \<open>The retry loop, one attempt at a time.\<close>

lemma state_before_0 [simp]: "state_before func s 0 = s"
  by (simp add: state_before_def)

lemma state_before_Suc: "state_before func s (Suc k) = state_before func (snd (func s)) k"
proof -
  have "(f ^^ Suc k) s = (f ^^ k) (f s)" for f :: "'a \<Rightarrow> 'a"
    by (simp add: funpow_swap1)
  then show ?thesis
    unfolding state_before_def .
qed

lemma attempt_outcome_0: "attempt_outcome func s 0 = fst (func s)"
  by (simp add: attempt_outcome_def)

lemma attempt_outcome_Suc: "attempt_outcome func s (Suc k) = attempt_outcome func (snd (func s)) k"
  by (simp add: attempt_outcome_def state_before_Suc)

lemma retry_loop_final:
  assumes "\<not> is_throttle (fst (func s))"
  shows "retry_loop m b func (j # rest) s sl = (wrapped_outcome (fst (func s)), snd (func s), sl)"
  using assms
  by (cases "func s")
     (auto simp: is_throttle_def wrapped_outcome_def split: sum.splits exn.splits)

lemma retry_loop_last:
  assumes "is_throttle (fst (func s))" and "\<not> Suc j < m"
  shows "retry_loop m b func (j # rest) s sl = (wrapped_outcome (fst (func s)), snd (func s), sl)"
  using assms
  by (cases "func s")
     (auto simp: is_throttle_def wrapped_outcome_def split: sum.splits exn.splits)

lemma retry_loop_again:
  assumes "is_throttle (fst (func s))" and "Suc j < m"
  shows "retry_loop m b func (j # rest) s sl = retry_loop m b func rest (snd (func s)) (sl @ [b * 2 ^ j])"
  using assms
  by (cases "func s")
     (auto simp: is_throttle_def wrapped_outcome_def split: sum.splits exn.splits)

lemma map_delays_Suc:
  "map (\<lambda>i. b * 2 ^ (j + i)) [0..<Suc k] = (b * 2 ^ j) # map (\<lambda>i. b * (2::real) ^ (Suc j + i)) [0..<k]"
proof -
  have "[0..<Suc k] = 0 # map Suc [0..<k]"
    by (simp add: upt_conv_Cons map_Suc_upt del: upt_Suc)
  then show ?thesis
    by (simp add: comp_def del: upt_Suc)
qed

lemma retry_loop_first_other:
  "j + k < m \<Longrightarrow> (\<forall>i<k. is_throttle (attempt_outcome func s i))
    \<Longrightarrow> \<not> is_throttle (attempt_outcome func s k)
    \<Longrightarrow> retry_loop m b func [j..<m] s sl =
          (wrapped_outcome (attempt_outcome func s k), state_before func s (Suc k),
           sl @ map (\<lambda>i. b * 2 ^ (j + i)) [0..<k])"
proof (induction k arbitrary: j s sl)
  case 0
  then have "[j..<m] = j # [Suc j..<m]"
    by (simp add: upt_conv_Cons)
  with 0 show ?case
    by (simp add: retry_loop_final attempt_outcome_0 state_before_Suc del: retry_loop.simps)
next
  case (Suc k)
  then have upt: "[j..<m] = j # [Suc j..<m]"
    by (simp add: upt_conv_Cons)
  from Suc.prems have thr: "is_throttle (fst (func s))"
    by (auto simp: attempt_outcome_0 [symmetric])
  from Suc.prems have more: "Suc j < m"
    by simp
  have step: "retry_loop m b func [j..<m] s sl =
      retry_loop m b func [Suc j..<m] (snd (func s)) (sl @ [b * 2 ^ j])"
    using upt thr more by (simp add: retry_loop_again del: retry_loop.simps)
  have ih: "retry_loop m b func [Suc j..<m] (snd (func s)) (sl @ [b * 2 ^ j]) =
      (wrapped_outcome (attempt_outcome func (snd (func s)) k),
       state_before func (snd (func s)) (Suc k),
       (sl @ [b * 2 ^ j]) @ map (\<lambda>i. b * 2 ^ (Suc j + i)) [0..<k])"
  proof (rule Suc.IH)
    show "Suc j + k < m" using Suc.prems by simp
    show "\<forall>i<k. is_throttle (attempt_outcome func (snd (func s)) i)"
      using Suc.prems by (auto simp: attempt_outcome_Suc [symmetric])
    show "\<not> is_throttle (attempt_outcome func (snd (func s)) k)"
      using Suc.prems by (simp add: attempt_outcome_Suc)
  qed
  show ?case
    unfolding step ih map_delays_Suc
    by (simp add: attempt_outcome_Suc state_before_Suc)
qed

lemma retry_loop_all_throttled:
  "Suc (j + k) = m \<Longrightarrow> (\<forall>i\<le>k. is_throttle (attempt_outcome func s i))
    \<Longrightarrow> retry_loop m b func [j..<m] s sl =
          (wrapped_outcome (attempt_outcome func s k), state_before func s (Suc k),
           sl @ map (\<lambda>i. b * 2 ^ (j + i)) [0..<k])"
proof (induction k arbitrary: j s sl)
  case 0
  then have "[j..<m] = j # [Suc j..<m]"
    by (auto simp: upt_conv_Cons)
  moreover from 0 have "is_throttle (fst (func s))" and "\<not> Suc j < m"
    by (auto simp: attempt_outcome_0)
  ultimately show ?case
    by (simp add: retry_loop_last attempt_outcome_0 state_before_Suc del: retry_loop.simps)
next
  case (Suc k)
  then have upt: "[j..<m] = j # [Suc j..<m]"
    by (auto simp: upt_conv_Cons)
  from Suc.prems have thr: "is_throttle (fst (func s))"
    by (auto simp: attempt_outcome_0 [symmetric])
  from Suc.prems have more: "Suc j < m"
    by auto
  have step: "retry_loop m b func [j..<m] s sl =
      retry_loop m b func [Suc j..<m] (snd (func s)) (sl @ [b * 2 ^ j])"
    using upt thr more by (simp add: retry_loop_again del: retry_loop.simps)
  have ih: "retry_loop m b func [Suc j..<m] (snd (func s)) (sl @ [b * 2 ^ j]) =
      (wrapped_outcome (attempt_outcome func (snd (func s)) k),
       state_before func (snd (func s)) (Suc k),
       (sl @ [b * 2 ^ j]) @ map (\<lambda>i. b * 2 ^ (Suc j + i)) [0..<k])"
  proof (rule Suc.IH)
    show "Suc (Suc j + k) = m" using Suc.prems by simp
    show "\<forall>i\<le>k. is_throttle (attempt_outcome func (snd (func s)) i)"
      using Suc.prems by (auto simp: attempt_outcome_Suc [symmetric])
  qed
  show ?case
    unfolding step ih map_delays_Suc
    by (simp add: attempt_outcome_Suc state_before_Suc)
qed

text \<open>
  C9. With at least one attempt allowed (the default is three): if the attempts before
  attempt \<open>k\<close> all fail with a throttling error (code Throttling or
  RequestLimitExceeded) and attempt \<open>k\<close> does not, the wrapper hands on the outcome
  of attempt \<open>k\<close> as it is, the returned value or the raised exception, after
  \<open>k + 1\<close> calls, having slept \<open>base_delay * 2 ^ i\<close> after each failed attempt
  \<open>i\<close>; a failure that is not a throttling error is therefore handed on at once. If
  all \<open>max_retries\<close> attempts are throttled, the exception of the last attempt is
  raised, after \<open>max_retries\<close> calls and \<open>max_retries - 1\<close> sleeps.
\<close>

theorem retry_on_throttle_spec:
  "0 < max_retries \<Longrightarrow>
     (\<forall>k<max_retries.
         (\<forall>i<k. is_throttle (attempt_outcome func s i)) \<and> \<not> is_throttle (attempt_outcome func s k)
         \<longrightarrow> retry_on_throttle max_retries base_delay func s =
               (wrapped_outcome (attempt_outcome func s k), state_before func s (Suc k),
                map (\<lambda>i. base_delay * 2 ^ i) [0..<k]))
   \<and> ((\<forall>i<max_retries. is_throttle (attempt_outcome func s i))
         \<longrightarrow> retry_on_throttle max_retries base_delay func s =
               (wrapped_outcome (attempt_outcome func s (max_retries - 1)),
                state_before func s max_retries,
                map (\<lambda>i. base_delay * 2 ^ i) [0..<max_retries - 1]))"
proof (intro conjI allI impI)
  fix k
  assume "k < max_retries"
    and "(\<forall>i<k. is_throttle (attempt_outcome func s i)) \<and> \<not> is_throttle (attempt_outcome func s k)"
  then show "retry_on_throttle max_retries base_delay func s =
      (wrapped_outcome (attempt_outcome func s k), state_before func s (Suc k),
       map (\<lambda>i. base_delay * 2 ^ i) [0..<k])"
    using retry_loop_first_other [of 0 k max_retries func s base_delay "[]"]
    by (simp add: retry_on_throttle_def)
next
  assume pos: "0 < max_retries" and all: "\<forall>i<max_retries. is_throttle (attempt_outcome func s i)"
  then obtain k where k: "max_retries = Suc k"
    by (cases max_retries) auto
  with all have "\<forall>i\<le>k. is_throttle (attempt_outcome func s i)"
    by auto
  then show "retry_on_throttle max_retries base_delay func s =
      (wrapped_outcome (attempt_outcome func s (max_retries - 1)),
       state_before func s max_retries,
       map (\<lambda>i. base_delay * 2 ^ i) [0..<max_retries - 1])"
    using retry_loop_all_throttled [of 0 k max_retries func s base_delay "[]"] k
    by (simp add: retry_on_throttle_def)
qed

theorem retry_on_throttle_spec_witness:
  "retry_on_throttle 3 1 throttled_twice 0 = (Inr (Some ''done''), 3, [1, 2])
   \<and> retry_on_throttle 3 1 always_throttled 0 =
       (Inl (ClientError (Some (Some ''RequestLimitExceeded'', Some ''Request limit exceeded'')) ''2''), 3, [1, 2])
   \<and> retry_on_throttle 3 1 access_denied 0 =
       (Inl (ClientError (Some (Some ''AccessDenied'', Some ''Denied'')) ''AccessDenied: Denied''), 1, [])"
proof -
  have upt2: "[0..<2] = [0, Suc 0]" and upt3: "[0..<3] = [0, Suc 0, 2]"
    by (simp_all add: upt_rec)
  have sb1: "state_before throttled_twice 0 k = k" for k
    by (induction k) (simp_all add: state_before_def throttled_twice_def)
  have sb2: "state_before always_throttled 0 k = k" for k
    by (induction k) (simp_all add: state_before_def always_throttled_def)
  have sb3: "state_before access_denied 0 k = k" for k
    by (induction k) (simp_all add: state_before_def access_denied_def)
  have a: "retry_on_throttle 3 1 throttled_twice 0 = (Inr (Some ''done''), 3, [1, 2])"
    using retry_on_throttle_spec [of 3 throttled_twice 0 1, THEN conjunct1, rule_format, of 2]
    by (simp add: attempt_outcome_def sb1 is_throttle_def response_get_code_def
        throttled_twice_def wrapped_outcome_def upt2)
  have b: "retry_on_throttle 3 1 always_throttled 0 =
       (Inl (ClientError (Some (Some ''RequestLimitExceeded'', Some ''Request limit exceeded'')) ''2''), 3, [1, 2])"
    using retry_on_throttle_spec [of 3 always_throttled 0 1, THEN conjunct2, rule_format]
    by (simp add: attempt_outcome_def sb2 is_throttle_def response_get_code_def
        always_throttled_def wrapped_outcome_def upt2 str_nat.simps digit_char_def)
  have c: "retry_on_throttle 3 1 access_denied 0 =
       (Inl (ClientError (Some (Some ''AccessDenied'', Some ''Denied'')) ''AccessDenied: Denied''), 1, [])"
    using retry_on_throttle_spec [of 3 access_denied 0 1, THEN conjunct1, rule_format, of 0]
    by (simp add: attempt_outcome_def sb3 is_throttle_def response_get_code_def
        access_denied_def wrapped_outcome_def)
  from a b c show ?thesis
    by simp
qed

text \<open>What the loop over the access keys appends, for any clock.\<close>

lemma access_key_loop_effect:
  "aud_findings (access_key_loop clk u keys a) =
     aud_findings a @
       map (\<lambda>(i, key). access_key_finding u key (key_age (clk i) key))
         (filter (\<lambda>(i, key). key_age (clk i) key > MAX_ACCESS_KEY_AGE_DAYS)
            (enumerate (clock_reads a) (filter (\<lambda>key. Status key = ''Active'') keys)))
   \<and> clock_reads (access_key_loop clk u keys a) =
       clock_reads a + length (filter (\<lambda>key. Status key = ''Active'') keys)
   \<and> aud_demo_mode (access_key_loop clk u keys a) = aud_demo_mode a"
proof (induction keys arbitrary: a)
  case Nil
  show ?case by simp
next
  case (Cons key keys)
  show ?case
  proof (cases "Status key = ''Active''")
    case False
    then show ?thesis
      using Cons.IH [of a] by simp
  next
    case True
    let ?a1 = "a\<lparr>clock_reads := Suc (clock_reads a)\<rparr>"
    let ?age = "key_age (clk (clock_reads a)) key"
    show ?thesis
    proof (cases "?age > MAX_ACCESS_KEY_AGE_DAYS")
      case True
      with \<open>Status key = ''Active''\<close> show ?thesis
        using Cons.IH [of "append_finding (access_key_finding u key ?age) ?a1"]
        by (simp add: datetime_now_def key_age_def append_finding_def)
    next
      case False
      with \<open>Status key = ''Active''\<close> show ?thesis
        using Cons.IH [of ?a1]
        by (simp add: datetime_now_def key_age_def)
    qed
  qed
qed

lemma enumerate_const_filter:
  "map (\<lambda>(i, key). f key) (filter (\<lambda>(i, key). P key) (enumerate n ks)) = map f (filter P ks)"
  by (induction ks arbitrary: n) auto

text \<open>
  C3. \<open>_check_access_key_age\<close> appends, in the order of the keys, exactly one finding
  for every access key that is Active and whose whole-day age, at the clock reading taken
  for that key, is greater than 90, and nothing else; each such finding has severity
  MEDIUM and rule id CIS-1.4. When the clock reads the same instant throughout the call,
  these are the Active keys older than 90 days at that instant. A single Active key of
  age exactly 91 days yields one finding, one of age exactly 90 days yields none, and
  keys that are not Active yield none whatever their age.
\<close>

theorem check_access_key_age_findings:
  "aud_findings (check_access_key_age clk user a) =
     aud_findings a @
       map (\<lambda>(i, key). access_key_finding (UserName user) key (key_age (clk i) key))
         (filter (\<lambda>(i, key). key_age (clk i) key > 90)
            (enumerate (clock_reads a) (filter (\<lambda>key. Status key = ''Active'') (AccessKeys user))))
   \<and> ((\<forall>i. clk i = now) \<longrightarrow>
        aud_findings (check_access_key_age clk user a) =
          aud_findings a @
            map (\<lambda>key. access_key_finding (UserName user) key (key_age now key))
              (filter (\<lambda>key. Status key = ''Active'' \<and> key_age now key > 90) (AccessKeys user)))
   \<and> (\<forall>key age. severity (access_key_finding (UserName user) key age) = MEDIUM
          \<and> rule_id (access_key_finding (UserName user) key age) = ''CIS-1.4'')
   \<and> (\<forall>key. AccessKeys user = [key] \<and> Status key = ''Active''
          \<and> key_age (clk (clock_reads a)) key = 91 \<longrightarrow>
        aud_findings (check_access_key_age clk user a) =
          aud_findings a @ [access_key_finding (UserName user) key 91])
   \<and> (\<forall>key. AccessKeys user = [key] \<and> Status key = ''Active''
          \<and> key_age (clk (clock_reads a)) key = 90 \<longrightarrow>
        aud_findings (check_access_key_age clk user a) = aud_findings a)
   \<and> ((\<forall>key \<in> set (AccessKeys user). Status key \<noteq> ''Active'') \<longrightarrow>
        aud_findings (check_access_key_age clk user a) = aud_findings a)"
proof -
  let ?active = "filter (\<lambda>key. Status key = ''Active'') (AccessKeys user)"
  have general: "aud_findings (check_access_key_age clk user a) =
     aud_findings a @
       map (\<lambda>(i, key). access_key_finding (UserName user) key (key_age (clk i) key))
         (filter (\<lambda>(i, key). key_age (clk i) key > 90) (enumerate (clock_reads a) ?active))"
    using access_key_loop_effect [of clk "UserName user" "AccessKeys user" a]
    by (simp add: check_access_key_age_def MAX_ACCESS_KEY_AGE_DAYS_def)
  have steady: "aud_findings (check_access_key_age clk user a) =
          aud_findings a @
            map (\<lambda>key. access_key_finding (UserName user) key (key_age now key))
              (filter (\<lambda>key. Status key = ''Active'' \<and> key_age now key > 90) (AccessKeys user))"
    if "\<forall>i. clk i = now"
  proof -
    have "filter (\<lambda>key. Status key = ''Active'' \<and> key_age now key > 90) (AccessKeys user) =
        filter (\<lambda>key. key_age now key > 90) ?active"
      by (simp add: conj_commute)
    with that show ?thesis
      unfolding general by (simp add: enumerate_const_filter)
  qed
  have fields: "severity (access_key_finding (UserName user) key age) = MEDIUM
      \<and> rule_id (access_key_finding (UserName user) key age) = ''CIS-1.4''" for key age
    by (simp add: access_key_finding_def)
  have none_active: "aud_findings (check_access_key_age clk user a) = aud_findings a"
    if "\<forall>key \<in> set (AccessKeys user). Status key \<noteq> ''Active''"
  proof -
    from that have "?active = []"
      by (simp add: filter_empty_conv)
    then show ?thesis
      unfolding general by simp
  qed
  show ?thesis
    using steady fields none_active
    by (auto simp: general)
qed

theorem check_access_key_age_findings_witness:
  "aud_findings (check_access_key_age (\<lambda>i. 100 * day) key_user fresh_auditor) =
     [access_key_finding ''old_key_user'' key_91_days 91]
   \<and> key_age (100 * day) key_91_days = 91 \<and> key_age (100 * day) key_90_days = 90"
  using check_access_key_age_findings [of "\<lambda>i. 100 * day" key_user fresh_auditor "100 * day"]
  by (simp add: key_user_def fresh_auditor_def key_91_days_def key_90_days_def key_inactive_def
      key_age_def timedelta_days_def day_def)

text \<open>
  Under a clock that reads one instant, every check maps auditors that agree on mode and
  findings to auditors that agree on them; no check changes the mode.
\<close>

lemma append_finding_same:
  "same_audit a b \<Longrightarrow> same_audit (append_finding f a) (append_finding f b)"
  by (simp add: same_audit_def append_finding_def)

lemma append_finding_demo_mode [simp]:
  "aud_demo_mode (append_finding f a) = aud_demo_mode a"
  by (simp add: append_finding_def)

lemma check_mfa_enabled_same:
  "same_audit a b \<Longrightarrow> same_audit (check_mfa_enabled user a) (check_mfa_enabled user b)"
  by (simp add: check_mfa_enabled_def Let_def append_finding_same)

lemma check_mfa_enabled_demo_mode [simp]:
  "aud_demo_mode (check_mfa_enabled user a) = aud_demo_mode a"
  by (simp add: check_mfa_enabled_def Let_def)

lemma check_access_key_age_same:
  assumes "\<forall>i. clk i = now" and "same_audit a b"
  shows "same_audit (check_access_key_age clk user a) (check_access_key_age clk user b)"
  using assms
    access_key_loop_effect [of clk "UserName user" "AccessKeys user" a]
    access_key_loop_effect [of clk "UserName user" "AccessKeys user" b]
  by (simp add: same_audit_def check_access_key_age_def enumerate_const_filter)

lemma check_access_key_age_demo_mode [simp]:
  "aud_demo_mode (check_access_key_age clk user a) = aud_demo_mode a"
  using access_key_loop_effect [of clk "UserName user" "AccessKeys user" a]
  by (simp add: check_access_key_age_def)

lemma check_unused_credentials_same:
  assumes "\<forall>i. clk i = now" and "same_audit a b"
  shows "same_audit (check_unused_credentials clk user a) (check_unused_credentials clk user b)"
  using assms
  by (simp add: same_audit_def check_unused_credentials_def datetime_now_def Let_def
      append_finding_def split: option.splits)

lemma check_unused_credentials_demo_mode [simp]:
  "aud_demo_mode (check_unused_credentials clk user a) = aud_demo_mode a"
  by (simp add: check_unused_credentials_def datetime_now_def Let_def split: option.splits)

lemma check_multiple_access_keys_same:
  "same_audit a b \<Longrightarrow> same_audit (check_multiple_access_keys user a) (check_multiple_access_keys user b)"
  by (simp add: check_multiple_access_keys_def Let_def append_finding_same)

lemma check_multiple_access_keys_demo_mode [simp]:
  "aud_demo_mode (check_multiple_access_keys user a) = aud_demo_mode a"
  by (simp add: check_multiple_access_keys_def Let_def)

lemma check_direct_policy_attachment_same:
  "same_audit a b \<Longrightarrow>
     same_audit (check_direct_policy_attachment user a) (check_direct_policy_attachment user b)"
  by (simp add: check_direct_policy_attachment_def Let_def append_finding_same)

lemma check_direct_policy_attachment_demo_mode [simp]:
  "aud_demo_mode (check_direct_policy_attachment user a) = aud_demo_mode a"
  by (simp add: check_direct_policy_attachment_def Let_def)

lemma admin_privileges_loop_same:
  "same_audit a b \<Longrightarrow>
     same_audit (admin_privileges_loop u policies a) (admin_privileges_loop u policies b)"
  by (induction policies arbitrary: a b) (simp_all add: append_finding_same)

lemma admin_privileges_loop_demo_mode [simp]:
  "aud_demo_mode (admin_privileges_loop u policies a) = aud_demo_mode a"
  by (induction policies arbitrary: a) simp_all

lemma check_user_same:
  assumes "\<forall>i. clk i = now" and "same_audit a b"
  shows "same_audit (check_user clk user a) (check_user clk user b)"
  unfolding check_user_def check_admin_privileges_def
  by (intro admin_privileges_loop_same check_direct_policy_attachment_same
      check_multiple_access_keys_same check_unused_credentials_same [OF assms(1)]
      check_access_key_age_same [OF assms(1)] check_mfa_enabled_same assms(2))

lemma check_user_demo_mode [simp]:
  "aud_demo_mode (check_user clk user a) = aud_demo_mode a"
  by (simp add: check_user_def check_admin_privileges_def)

lemma check_users_same:
  "\<forall>i. clk i = now \<Longrightarrow> same_audit a b \<Longrightarrow>
     same_audit (check_users clk users a) (check_users clk users b)"
  by (induction users arbitrary: a b) (simp_all add: check_user_same)

lemma check_users_demo_mode [simp]:
  "aud_demo_mode (check_users clk users a) = aud_demo_mode a"
  by (induction users arbitrary: a) simp_all

lemma account_checks_same:
  "same_audit a b \<Longrightarrow>
     same_audit (check_root_account (check_password_policy a))
       (check_root_account (check_password_policy b))"
  by (simp add: same_audit_def check_root_account_def check_password_policy_def append_finding_def)

lemma account_checks_demo_mode [simp]:
  "aud_demo_mode (check_root_account (check_password_policy a)) = aud_demo_mode a"
  by (simp add: check_root_account_def check_password_policy_def)

lemma generate_report_same:
  "\<forall>i. clk i = now \<Longrightarrow> same_audit a b \<Longrightarrow>
     fst (generate_report clk n a) = fst (generate_report clk n b)"
  by (simp add: fst_generate_report same_audit_def)

lemma snd_generate_report:
  "snd (generate_report clk n a) = a\<lparr>clock_reads := Suc (clock_reads a)\<rparr>"
  by (simp add: generate_report_def datetime_now_def Let_def)

lemma run_full_audit_same:
  assumes "\<forall>i. clk i = now" and "aud_demo_mode a = aud_demo_mode b"
  shows "fst (run_full_audit clk DEMO_USERS iam_users a) = fst (run_full_audit clk DEMO_USERS iam_users b)"
proof -
  let ?a0 = "a\<lparr>aud_findings := []\<rparr>" and ?b0 = "b\<lparr>aud_findings := []\<rparr>"
  have users: "get_users DEMO_USERS iam_users ?a0 = get_users DEMO_USERS iam_users ?b0"
    using assms(2) by (simp add: get_users_def)
  have "same_audit ?a0 ?b0"
    using assms(2) by (simp add: same_audit_def)
  then have "same_audit (check_users clk (get_users DEMO_USERS iam_users ?b0) ?a0)
      (check_users clk (get_users DEMO_USERS iam_users ?b0) ?b0)"
    by (rule check_users_same [OF assms(1)])
  then have "same_audit
      (check_root_account (check_password_policy (check_users clk (get_users DEMO_USERS iam_users ?b0) ?a0)))
      (check_root_account (check_password_policy (check_users clk (get_users DEMO_USERS iam_users ?b0) ?b0)))"
    by (rule account_checks_same)
  then show ?thesis
    unfolding run_full_audit_def Let_def users
    by (rule generate_report_same [OF assms(1)])
qed

lemma run_full_audit_state:
  "aud_demo_mode (snd (run_full_audit clk DEMO_USERS iam_users a)) = aud_demo_mode a
   \<and> aud_findings (snd (run_full_audit clk DEMO_USERS iam_users a)) =
       findings (fst (run_full_audit clk DEMO_USERS iam_users a))"
  by (simp add: run_full_audit_def Let_def snd_generate_report fst_generate_report)

lemma run_full_audit_fresh:
  "run_full_audit clk DEMO_USERS iam_users (a\<lparr>aud_findings := fs\<rparr>) =
     run_full_audit clk DEMO_USERS iam_users a"
  by (simp add: run_full_audit_def)

text \<open>
  C10. \<open>run_full_audit\<close> starts from an empty findings list: its report and the
  auditor it leaves do not depend on the findings the auditor held before, and the
  report's findings are those of the auditor after the run. When the clock reads one
  instant, a second run right after the first, over the same identities, gives the same
  findings list, the same counts per severity and the same compliance score.
\<close>

theorem run_full_audit_no_accumulation:
  "(\<forall>fs. run_full_audit clk DEMO_USERS iam_users (a\<lparr>aud_findings := fs\<rparr>) =
          run_full_audit clk DEMO_USERS iam_users a)
   \<and> findings (fst (run_full_audit clk DEMO_USERS iam_users a)) =
       aud_findings (snd (run_full_audit clk DEMO_USERS iam_users a))
   \<and> ((\<forall>i. clk i = now) \<longrightarrow>
        (let r1 = fst (run_full_audit clk DEMO_USERS iam_users a);
             a1 = snd (run_full_audit clk DEMO_USERS iam_users a);
             r2 = fst (run_full_audit clk DEMO_USERS iam_users a1)
         in findings r2 = findings r1
          \<and> total_findings r2 = total_findings r1
          \<and> critical_count r2 = critical_count r1
          \<and> high_count r2 = high_count r1
          \<and> medium_count r2 = medium_count r1
          \<and> low_count r2 = low_count r1
          \<and> compliance_score r2 = compliance_score r1))"
proof -
  have "fst (run_full_audit clk DEMO_USERS iam_users
              (snd (run_full_audit clk DEMO_USERS iam_users a))) =
        fst (run_full_audit clk DEMO_USERS iam_users a)"
    if "\<forall>i. clk i = now"
    using that run_full_audit_state [of clk DEMO_USERS iam_users a]
    by (intro run_full_audit_same [of clk now]) simp_all
  then show ?thesis
    using run_full_audit_state [of clk DEMO_USERS iam_users a]
    by (simp add: run_full_audit_fresh Let_def)
qed

theorem run_full_audit_no_accumulation_witness:
  "(let r1 = fst (run_full_audit (\<lambda>i. 100 * day) [key_user] [] stale_auditor);
        a1 = snd (run_full_audit (\<lambda>i. 100 * day) [key_user] [] stale_auditor);
        r2 = fst (run_full_audit (\<lambda>i. 100 * day) [key_user] [] a1)
    in map rule_id (findings r1) = [''CIS-1.4'', ''BP-1'', ''CIS-1.9'', ''CIS-1.1'']
     \<and> compliance_score r1 = 25
     \<and> findings r2 = findings r1
     \<and> medium_count r2 = 2
     \<and> compliance_score r2 = 25)"
proof -
  let ?run = "run_full_audit (\<lambda>i. 100 * day) [key_user] [] stale_auditor"
  have findings1: "findings (fst ?run) =
      [access_key_finding ''old_key_user'' key_91_days 91,
       \<lparr>rule_id = ''BP-1'', rule_name = ''Multiple Access Keys'', resource_type = ''IAM User'',
        resource_id = ''old_key_user'', severity = LOW, status = NON_COMPLIANT,
        description = ''User has '' @ str_int 2 @ '' active access keys'',
        recommendation = ''Remove unused access keys'',
        details = [(''active_key_count'', DInt 2)]\<rparr>,
       \<lparr>rule_id = ''CIS-1.9'', rule_name = ''Password Reuse Prevention'',
        resource_type = ''Account Password Policy'', resource_id = ''PasswordPolicy'',
        severity = MEDIUM, status = NON_COMPLIANT,
        description = ''Password policy does not prevent reuse of last 24 passwords'',
        recommendation = ''Set PasswordReusePrevention to 24'',
        details = [(''current_value'', DInt 12), (''required_value'', DInt 24)]\<rparr>,
       \<lparr>rule_id = ''CIS-1.1'', rule_name = ''Root Account Usage'', resource_type = ''Root Account'',
        resource_id = ''root'', severity = INFO, status = COMPLIANT,
        description = ''Root account has not been used in the last 90 days'',
        recommendation = ''Continue avoiding root account usage'',
        details = [(''last_used'', DStr ''Never or >90 days'')]\<rparr>]"
    by (simp add: run_full_audit_def get_users_def stale_auditor_def fst_generate_report
        check_user_def check_mfa_enabled_def check_access_key_age_def
        check_unused_credentials_def check_multiple_access_keys_def
        check_direct_policy_attachment_def check_admin_privileges_def
        check_password_policy_def check_root_account_def append_finding_def datetime_now_def
        key_user_def key_91_days_def key_90_days_def key_inactive_def
        timedelta_days_def day_def MAX_ACCESS_KEY_AGE_DAYS_def Let_def)
  have report1: "fst ?run =
      (fst ?run)\<lparr>total_findings := int (length (findings (fst ?run))),
        medium_count := int (length (filter (\<lambda>f. severity f = MEDIUM) (findings (fst ?run)))),
        compliance_score :=
          float_value
            (float_mul
               (int_truediv
                  (int (length (findings (fst ?run)))
                    - int (length (filter (\<lambda>f. status f = NON_COMPLIANT) (findings (fst ?run)))))
                  (max (int (length (findings (fst ?run)))) 1))
               (float_of_int 100))\<rparr>"
    by (simp add: run_full_audit_def Let_def fst_generate_report)
  have score1: "compliance_score (fst ?run) = 25" and medium1: "medium_count (fst ?run) = 2"
    by (subst report1, simp add: findings1 access_key_finding_def percent_1_4)+
  show ?thesis
    using run_full_audit_no_accumulation
      [of "\<lambda>i. 100 * day" "[key_user]" "[]" stale_auditor "100 * day",
        THEN conjunct2, THEN conjunct2]
    by (simp add: Let_def findings1 score1 medium1 access_key_finding_def)
qed

text \<open>Every provisioning step only adds calls and random draws.\<close>

lemma step_effect_refl [simp]: "step_effect p p"
  by (simp add: step_effect_def)

lemma step_effect_trans: "step_effect p q \<Longrightarrow> step_effect q r \<Longrightarrow> step_effect p r"
  by (auto simp: step_effect_def)

lemma client_call_effect: "step_effect p (snd (client_call aws c p))"
  by (simp add: step_effect_def client_call_def split: option.splits)

lemma create_iam_user_effect: "step_effect p (snd (create_iam_user aws request p))"
  by (simp add: create_iam_user_def client_call_effect)

lemma assign_groups_loop_effect:
  "step_effect p (snd (assign_groups_loop aws request i groups p))"
proof (induction aws request i groups p rule: assign_groups_loop.induct)
  case (1 aws request i groups p)
  show ?case
  proof (cases "i < length groups")
    case False
    then show ?thesis
      by (simp add: assign_groups_loop.simps [of aws request i groups p])
  next
    case True
    note in_range = this
    show ?thesis
    proof (cases "prov_demo_mode p")
      case True
      with in_range "1.IH"(1) show ?thesis
        by (simp add: assign_groups_loop.simps [of aws request i groups p])
    next
      case False
      obtain out p1 where call: "client_call aws (IamAddUserToGroup (username request) (groups ! i)) p = (out, p1)"
        by (cases "client_call aws (IamAddUserToGroup (username request) (groups ! i)) p")
      have p1: "step_effect p p1"
        using client_call_effect [of p aws "IamAddUserToGroup (username request) (groups ! i)"] call
        by simp
      show ?thesis
      proof (cases out)
        case (Inr u)
        have "step_effect p1 (snd (assign_groups_loop aws request (Suc i) groups p1))"
          using "1.IH"(3) [OF in_range refl False call [symmetric] Inr] .
        with p1 in_range False call Inr show ?thesis
          by (simp add: assign_groups_loop.simps [of aws request i groups p] step_effect_trans)
      next
        case (Inl e)
        note raised = this
        note live = \<open>\<not> prov_demo_mode p\<close>
        show ?thesis
        proof (cases e)
          case (ClientError response etext)
          note client_error = this
          show ?thesis
          proof (cases "response_code response")
            case (Inl key_error)
            with p1 in_range live call raised client_error show ?thesis
              by (simp add: assign_groups_loop.simps [of aws request i groups p])
          next
            case (Inr error_code)
            note code = this
            show ?thesis
            proof (cases "error_code = ''NoSuchEntity''")
              case True
              have "step_effect p1
                  (snd (assign_groups_loop aws request (Suc i) (remove1 (groups ! i) groups) p1))"
                using "1.IH"(2) [OF in_range refl live call [symmetric] raised client_error code True] .
              with p1 in_range live call raised client_error code True show ?thesis
                by (simp add: assign_groups_loop.simps [of aws request i groups p] step_effect_trans)
            next
              case False
              with p1 in_range live call raised client_error code show ?thesis
                by (simp add: assign_groups_loop.simps [of aws request i groups p])
            qed
          qed
        qed (use p1 in_range live call raised in
              \<open>simp_all add: assign_groups_loop.simps [of aws request i groups p]\<close>)
      qed
    qed
  qed
qed

lemma assign_groups_effect: "step_effect p (snd (assign_groups aws request p))"
  by (simp add: assign_groups_def Let_def assign_groups_loop_effect)

lemma attach_policies_loop_effect:
  "step_effect p (snd (attach_policies_loop aws request policies p))"
proof (induction policies arbitrary: p)
  case Nil
  show ?case by simp
next
  case (Cons policy_arn rest)
  show ?case
  proof (cases "prov_demo_mode p")
    case True
    then show ?thesis using Cons.IH [of p] by simp
  next
    case False
    obtain out p1 where call:
        "client_call aws (IamAttachUserPolicy (username request) policy_arn) p = (out, p1)"
      by (cases "client_call aws (IamAttachUserPolicy (username request) policy_arn) p")
    have p1: "step_effect p p1"
      using client_call_effect [of p aws "IamAttachUserPolicy (username request) policy_arn"] call
      by simp
    show ?thesis
      using False call p1 Cons.IH [of p1]
      by (cases out) (auto intro: step_effect_trans)
  qed
qed

lemma attach_policies_effect: "step_effect p (snd (attach_policies aws request p))"
proof -
  have loop: "attach_policies_loop aws request policies p = (out, q) \<Longrightarrow> step_effect p q"
    for policies out q
    using attach_policies_loop_effect [of p aws request policies] by simp
  show ?thesis
    by (auto simp: attach_policies_def split: option.splits prod.splits sum.splits dest: loop)
qed

lemma secrets_choice_effect: "step_effect p (snd (secrets_choice rnd seq p))"
  by (simp add: secrets_choice_def step_effect_def)

lemma draw_chars_effect: "step_effect p (snd (draw_chars rnd seq n p))"
proof (induction n arbitrary: p)
  case 0
  show ?case by simp
next
  case (Suc n)
  obtain c p1 where c: "secrets_choice rnd seq p = (c, p1)"
    by (cases "secrets_choice rnd seq p")
  with secrets_choice_effect [of p rnd seq] Suc [of p1] show ?case
    by (auto split: prod.splits intro: step_effect_trans)
qed

lemma generate_password_effect: "step_effect p (snd (generate_password rnd p))"
proof -
  have choice: "step_effect q (snd (secrets_choice rnd seq q))" for q seq
    by (rule secrets_choice_effect)
  have choice': "secrets_choice rnd seq q = (c, q') \<Longrightarrow> step_effect q q'" for q seq c q'
    using choice [of q seq] by simp
  obtain pw p1 where d: "draw_chars rnd alphabet PASSWORD_LENGTH p = (pw, p1)"
    by (cases "draw_chars rnd alphabet PASSWORD_LENGTH p")
  then have "step_effect p p1"
    using draw_chars_effect [of p rnd alphabet PASSWORD_LENGTH] by simp
  then show ?thesis
    unfolding generate_password_def d
    by (auto split: prod.splits if_splits dest!: choice' intro: step_effect_trans)
qed

lemma set_login_profile_effect: "step_effect p (snd (set_login_profile aws u pw p))"
  by (simp add: set_login_profile_def client_call_effect)

lemma store_credentials_effect: "step_effect p (snd (store_credentials aws request pw p))"
proof -
  have call: "client_call aws c q = (out, q') \<Longrightarrow> step_effect q q'" for c q out q'
    using client_call_effect [of q aws c] by simp
  show ?thesis
    by (auto simp: store_credentials_def Let_def split: prod.splits sum.splits exn.splits
        dest!: call intro: step_effect_trans)
qed

lemma send_notification_effect: "step_effect p (snd (send_notification aws request loc p))"
  by (simp add: send_notification_def client_call_effect)

lemma create_user_body_effect:
  "(\<exists>calls. api_calls (snd (create_user_body aws rnd request p)) = api_calls p @ calls)
   \<and> provisioned_users (snd (create_user_body aws rnd request p)) =
       (case fst (create_user_body aws rnd request p) of
          Inr r \<Rightarrow> if success r then provisioned_users p @ [r] else provisioned_users p
        | Inl raised \<Rightarrow> provisioned_users p)
   \<and> prov_demo_mode (snd (create_user_body aws rnd request p)) = prov_demo_mode p
   \<and> slept_delays (snd (create_user_body aws rnd request p)) = slept_delays p"
proof -
  obtain o1 p1 where s1: "create_iam_user aws request p = (o1, p1)"
    by (cases "create_iam_user aws request p")
  obtain o2 p2 where s2: "assign_groups aws request p1 = (o2, p2)"
    by (cases "assign_groups aws request p1")
  obtain o3 p3 where s3: "attach_policies aws request p2 = (o3, p3)"
    by (cases "attach_policies aws request p2")
  obtain pw p4 where s4: "generate_password rnd p3 = (pw, p4)"
    by (cases "generate_password rnd p3")
  obtain o5 p5 where s5: "set_login_profile aws (username request) pw p4 = (o5, p5)"
    by (cases "set_login_profile aws (username request) pw p4")
  obtain o6 p6 where s6: "store_credentials aws request pw p5 = (o6, p6)"
    by (cases "store_credentials aws request pw p5")
  have e1: "step_effect p p1"
    using create_iam_user_effect [of p aws request] s1 by simp
  have e2: "step_effect p p2"
    using assign_groups_effect [of p1 aws request] s2 e1 by (auto intro: step_effect_trans)
  have e3: "step_effect p p3"
    using attach_policies_effect [of p2 aws request] s3 e2 by (auto intro: step_effect_trans)
  have e4: "step_effect p p4"
    using generate_password_effect [of p3 rnd] s4 e3 by (auto intro: step_effect_trans)
  have e5: "step_effect p p5"
    using set_login_profile_effect [of p4 aws "username request" pw] s5 e4
    by (auto intro: step_effect_trans)
  have e6: "step_effect p p6"
    using store_credentials_effect [of p5 aws request pw] s6 e5 by (auto intro: step_effect_trans)
  have e7: "step_effect p (snd (send_notification aws request loc p6))" for loc
    using send_notification_effect [of p6 aws request loc] e6 by (auto intro: step_effect_trans)
  have e7': "send_notification aws request loc p6 = (out, p7) \<Longrightarrow> step_effect p p7" for loc out p7
    using e7 [of loc] by simp
  show ?thesis
    using e1 e2 e3 e4 e5 e6
    by (auto simp: create_user_body_def s1 s2 s3 s4 s5 s6 failure_result_def step_effect_def Let_def
        split: sum.splits prod.splits dest!: e7')
qed




lemma generate_password_length:
  "length (fst (generate_password rnd p)) = PASSWORD_LENGTH"
proof -
  have len: "length (fst (draw_chars rnd seq n q)) = n" for seq n q
  proof (induction n arbitrary: q)
    case 0
    show ?case by simp
  next
    case (Suc n)
    obtain c q1 where c: "secrets_choice rnd seq q = (c, q1)"
      by (cases "secrets_choice rnd seq q")
    with Suc [of q1] show ?case
      by (cases "draw_chars rnd seq n q1") simp
  qed
  obtain pw p1 where d: "draw_chars rnd alphabet PASSWORD_LENGTH p = (pw, p1)"
    by (cases "draw_chars rnd alphabet PASSWORD_LENGTH p")
  with len [of alphabet PASSWORD_LENGTH p] have "length pw = 16"
    by (simp add: PASSWORD_LENGTH_def)
  then show ?thesis
    unfolding generate_password_def d
    by (auto simp: PASSWORD_LENGTH_def split: prod.splits)
qed

text \<open>
  C2, at a failing input. Every password returned has sixteen characters. But when the
  sixteen draws give \<open>0A00000000000000\<close>, whose only upper-case letter stands at
  position 1, the password has no lower-case letter, so position 1 is overwritten with a
  lower-case letter: the password returned, \<open>0a00000000000000\<close>, has a lower-case
  letter and a digit and no upper-case letter.
\<close>

theorem generate_password_misses_uppercase:
  "(\<forall>rnd p. length (fst (generate_password rnd p)) = 16)
   \<and> fst (draw_chars draws_one_upper alphabet PASSWORD_LENGTH demo_provisioner) = ''0A00000000000000''
   \<and> fst (generate_password draws_one_upper demo_provisioner) = ''0a00000000000000''
   \<and> \<not> list_ex isupper (fst (generate_password draws_one_upper demo_provisioner))
   \<and> list_ex islower (fst (generate_password draws_one_upper demo_provisioner))
   \<and> list_ex isdigit (fst (generate_password draws_one_upper demo_provisioner))"
proof -
  have drawn: "fst (draw_chars draws_one_upper alphabet PASSWORD_LENGTH demo_provisioner) =
      ''0A00000000000000''"
    by code_simp
  have returned: "fst (generate_password draws_one_upper demo_provisioner) = ''0a00000000000000''"
    by code_simp
  have classes: "\<not> list_ex isupper ''0a00000000000000''"
      "list_ex islower ''0a00000000000000''" "list_ex isdigit ''0a00000000000000''"
    by (simp_all add: isupper_def islower_def isdigit_def ascii_uppercase_def
        ascii_lowercase_def digits_def)
  show ?thesis
    using generate_password_length drawn classes
    by (simp add: returned PASSWORD_LENGTH_def)
qed

text \<open>
  C8, at a failing input. For an IT request, when the groups IT-Users and VPN-Access do
  not exist, removing IT-Users from the list under iteration makes the loop pass over
  VPN-Access: the user is never added to it, and the returned list still names it.
\<close>

theorem assign_groups_keeps_missing_group:
  "assign_groups aws_missing_groups it_developer live_provisioner =
     (Inr [''StandardUsers'', ''VPN-Access'', ''CloudWatch-ReadOnly''],
      live_provisioner\<lparr>api_calls :=
        [IamAddUserToGroup ''testuser'' ''StandardUsers'',
         IamAddUserToGroup ''testuser'' ''IT-Users'',
         IamAddUserToGroup ''testuser'' ''CloudWatch-ReadOnly'']\<rparr>)"
  by (simp add: assign_groups_def DEFAULT_GROUP_def DEPARTMENT_GROUPS_def it_developer_def
      live_provisioner_def aws_missing_groups_def no_such_entity_def client_call_def
      response_code_def assign_groups_loop.simps Let_def)

lemma generate_password_zero_draws:
  "generate_password (\<lambda>k. 0) demo_provisioner =
     (''Aa0aaaaaaaaaaaaa'', demo_provisioner\<lparr>random_draws := 18\<rparr>)"
  by code_simp

text \<open>
  C7, at a failing input. \<open>create_user\<close> appends its result to the result list only
  when the result is a success, and appends nothing when it raises. So for the batch of a valid and an invalid request, in
  demo mode, the two results are a success and a failure, the result list holds the
  success alone, and the summary reports one request processed and none failed.
\<close>

theorem failed_results_not_recorded:
  "(\<forall>aws rnd request p.
      case create_user aws rnd request p of
        (Inr (Some r), p') \<Rightarrow>
          provisioned_users p' =
            (if success r then provisioned_users p @ [r] else provisioned_users p)
      | (Inr None, p') \<Rightarrow> False
      | (Inl raised, p') \<Rightarrow> provisioned_users p' = provisioned_users p)
   \<and> (case provision_batch (\<lambda>calls c. None) (\<lambda>k. 0) [it_developer, invalid_request] demo_provisioner of
        (Inr results, p') \<Rightarrow>
          map (map_option success) results = [Some True, Some False]
          \<and> map res_username (provisioned_users p') = [''testuser'']
          \<and> get_summary p' =
              \<lparr>total_processed = 1, successful = 1, failed = 0, success_rate = 100,
               users_provisioned = [''testuser''], users_failed = []\<rparr>
      | _ \<Rightarrow> False)"
proof -
  have general: "case create_user aws rnd request p of
        (Inr (Some r), p') \<Rightarrow>
          provisioned_users p' =
            (if success r then provisioned_users p @ [r] else provisioned_users p)
      | (Inr None, p') \<Rightarrow> False
      | (Inl raised, p') \<Rightarrow> provisioned_users p' = provisioned_users p" for aws rnd request p
    using create_user_body_effect [of aws rnd request p]
    by (cases "create_user_body aws rnd request p")
       (auto simp: create_user_unfold split: sum.splits)
  have valid: "validate it_developer"
    by (simp add: validate_def it_developer_def)
  have invalid: "\<not> validate invalid_request"
    by (simp add: validate_def invalid_request_def)
  have first: "create_user_body (\<lambda>calls c. None) (\<lambda>k. 0) it_developer demo_provisioner =
      (Inr \<lparr>res_username = ''testuser'', success = True, message = ''User provisioned successfully'',
        groups_assigned = [''StandardUsers'', ''IT-Users'', ''VPN-Access'', ''CloudWatch-ReadOnly''],
        policies_attached = [''arn:aws:iam::aws:policy/PowerUserAccess''],
        credentials_location = Some ''secretsmanager:iam-credentials/IT/testuser''\<rparr>,
       demo_provisioner\<lparr>random_draws := 18,
         provisioned_users :=
           [\<lparr>res_username = ''testuser'', success = True, message = ''User provisioned successfully'',
             groups_assigned = [''StandardUsers'', ''IT-Users'', ''VPN-Access'', ''CloudWatch-ReadOnly''],
             policies_attached = [''arn:aws:iam::aws:policy/PowerUserAccess''],
             credentials_location = Some ''secretsmanager:iam-credentials/IT/testuser''\<rparr>]\<rparr>)"
  proof -
    have demo: "prov_demo_mode demo_provisioner" "provisioned_users demo_provisioner = []"
      by (simp_all add: demo_provisioner_def)
    have groups: "assign_groups (\<lambda>calls c. None) it_developer demo_provisioner =
        (Inr [''StandardUsers'', ''IT-Users'', ''VPN-Access'', ''CloudWatch-ReadOnly''], demo_provisioner)"
      by (simp add: assign_groups_def DEFAULT_GROUP_def DEPARTMENT_GROUPS_def it_developer_def
          demo assign_groups_loop.simps Let_def)
    have policies: "attach_policies (\<lambda>calls c. None) it_developer demo_provisioner =
        (Inr [''arn:aws:iam::aws:policy/PowerUserAccess''], demo_provisioner)"
      by (simp add: attach_policies_def ROLE_POLICIES_def it_developer_def demo)
    show ?thesis
      using valid
      by (simp add: create_user_body_def create_iam_user_def groups policies demo
          generate_password_zero_draws set_login_profile_def store_credentials_def
          send_notification_def Let_def)
         (simp add: it_developer_def demo_provisioner_def)
  qed
  have second: "create_user_body aws rnd invalid_request q =
      (Inr \<lparr>res_username = ''ab'', success = False, message = ''Validation failed'',
        groups_assigned = [], policies_attached = [], credentials_location = None\<rparr>, q)" for aws rnd q
    using invalid by (simp add: create_user_body_def) (simp add: invalid_request_def)
  have batch: "case provision_batch (\<lambda>calls c. None) (\<lambda>k. 0) [it_developer, invalid_request] demo_provisioner of
        (Inr results, p') \<Rightarrow>
          map (map_option success) results = [Some True, Some False]
          \<and> map res_username (provisioned_users p') = [''testuser'']
          \<and> get_summary p' =
              \<lparr>total_processed = 1, successful = 1, failed = 0, success_rate = 100,
               users_provisioned = [''testuser''], users_failed = []\<rparr>
      | _ \<Rightarrow> False"
    by (simp add: create_user_unfold first second get_summary_def percent_1_1 Let_def)
  show ?thesis
    by (intro conjI allI general batch)
qed

end
